theory Spec2Isabelle
  imports Complex_Main "HOL-Library.Sublist"
begin

section \<open>Decoded text\<close>

text \<open>
  Decoded barcode text and symbology names are Python \<open>str\<close> values. They are modelled
  as \<open>string\<close>, read as ASCII text, which is what the decoders emit for the numeric
  symbologies: \<open>str.isdigit\<close> is the test for the characters \<open>0\<close> to \<open>9\<close>, \<open>len\<close> is
  \<open>length\<close>, a slice \<open>s[a:b]\<close> is \<open>take (b - a) (drop a s)\<close>.
\<close>

definition isdigit :: "char \<Rightarrow> bool" where
  "isdigit c = (c \<in> set ''0123456789'')"

text \<open>\<open>int(ch)\<close> for a digit character.\<close>

definition digit_val :: "char \<Rightarrow> int" where
  "digit_val c = int (of_char c) - 48"

text \<open>\<open>str(n)\<close> for \<open>0 \<le> n \<le> 9\<close>, the only values it is applied to.\<close>

definition digit_str :: "int \<Rightarrow> string" where
  "digit_str n = [char_of (48 + nat n)]"

text \<open>\<open>s.isdigit()\<close>: false on the empty string.\<close>

definition str_isdigit :: "string \<Rightarrow> bool" where
  "str_isdigit s = (s \<noteq> [] \<and> list_all isdigit s)"

text \<open>\<open>s.startswith(p)\<close>.\<close>

definition startswith :: "string \<Rightarrow> string \<Rightarrow> bool" where
  "startswith s p = (take (length p) s = p)"

text \<open>\<open>p in s\<close> for strings: \<open>p\<close> occurs in \<open>s\<close> as a contiguous block.\<close>

fun str_contains :: "string \<Rightarrow> string \<Rightarrow> bool" where
  "str_contains p [] = (p = [])"
| "str_contains p (c # cs) = (startswith (c # cs) p \<or> str_contains p cs)"

text \<open>\<open>s.ljust(n, c)\<close>.\<close>

definition ljust :: "string \<Rightarrow> nat \<Rightarrow> char \<Rightarrow> string" where
  "ljust s n c = s @ replicate (n - length s) c"

section \<open>Normalization engine (caper_normalizer.py)\<close>

definition digits_only :: "string \<Rightarrow> string" where
  "digits_only s = filter isdigit s"

definition left_pad_to_13 :: "string \<Rightarrow> string" where
  "left_pad_to_13 s =
     (let d = digits_only s in
      if length d \<ge> 13 then take 13 d
      else replicate (13 - length d) (CHR ''0'') @ d)"

definition remove_check_digit_and_pad :: "string \<Rightarrow> string" where
  "remove_check_digit_and_pad s =
     (let d = digits_only s in
      if d = [] then d
      else left_pad_to_13 (butlast d))"

definition to_padded_raw_barcode :: "string \<Rightarrow> string" where
  "to_padded_raw_barcode s = left_pad_to_13 (digits_only s)"

text \<open>
  The weighted digit sum of \<open>_calculate_check_digit\<close>: position \<open>i\<close> (from the left,
  starting at the given index) has weight 3 when \<open>i\<close> is even and 1 otherwise.
\<close>

fun weighted_total :: "nat \<Rightarrow> string \<Rightarrow> int" where
  "weighted_total i [] = 0"
| "weighted_total i (c # cs) =
     digit_val c * (if even i then 3 else 1) + weighted_total (Suc i) cs"

definition calculate_check_digit :: "string \<Rightarrow> int option" where
  "calculate_check_digit s =
     (if s = [] \<or> \<not> str_isdigit s then None
      else Some ((10 - (weighted_total 0 s mod 10)) mod 10))"

definition is_valid_check_digit :: "string \<Rightarrow> bool" where
  "is_valid_check_digit barcode =
     (if length barcode < 2 then False
      else (case calculate_check_digit (butlast barcode) of
              None \<Rightarrow> False
            | Some check \<Rightarrow> digit_str check = [last barcode]))"

text \<open>
  \<open>_expand_upce_to_upca\<close>. After the first branch the digit string has eight
  characters, so every index below is in range; \<open>None\<close> is the source's \<open>return None\<close>.
\<close>

definition upce_expand8 :: "string \<Rightarrow> string option" where
  "upce_expand8 digits =
     (if digits ! 0 \<notin> {CHR ''0'', CHR ''1''} then None
      else
        let number_system = [digits ! 0];
            last_digit = digits ! 6;
            manufacturer = take 5 (drop 1 digits);
            check = (if length digits = 8 then [digits ! 7] else ''0'')
        in
          if last_digit \<in> {CHR ''0'', CHR ''1'', CHR ''2''} then
            Some (number_system @ take 2 manufacturer @ [last_digit] @ ''0000''
                  @ take 3 (drop 2 manufacturer) @ check)
          else if last_digit = CHR ''3'' then
            Some (number_system @ take 3 manufacturer @ ''00000''
                  @ take 2 (drop 3 manufacturer) @ check)
          else if last_digit = CHR ''4'' then
            Some (number_system @ take 4 manufacturer @ ''00000''
                  @ [manufacturer ! 4] @ check)
          else
            Some (number_system @ manufacturer @ ''0000'' @ [last_digit] @ check))"

definition expand_upce_to_upca :: "string \<Rightarrow> string option" where
  "expand_upce_to_upca upce =
     (let digits = digits_only upce in
      if length digits = 6 then upce_expand8 (''0'' @ digits @ ''0'')
      else if length digits = 7 then upce_expand8 (digits @ ''0'')
      else if length digits \<noteq> 8 then None
      else upce_expand8 digits)"

text \<open>
  The two guarded appends of \<open>normalize_candidates\<close>:
  \<open>if v not in candidates: candidates.append(v)\<close> and
  \<open>if v and v not in candidates: candidates.append(v)\<close>.
\<close>

definition append_new :: "string \<Rightarrow> string list \<Rightarrow> string list" where
  "append_new v candidates = (if v \<notin> set candidates then candidates @ [v] else candidates)"

definition append_new_nonempty :: "string \<Rightarrow> string list \<Rightarrow> string list" where
  "append_new_nonempty v candidates =
     (if v \<noteq> [] \<and> v \<notin> set candidates then candidates @ [v] else candidates)"

text \<open>
  The regular expression \<open>_EAN13_PRICE_EMBEDDED\<close>,
  \<open>^(2)(\d{5})(\d)(\d{5})(\d)$\<close>, matches exactly the strings of thirteen
  digits that start with \<open>2\<close>; its groups are fixed slices of the match.
\<close>

definition ean13_price_embedded_match :: "string \<Rightarrow> bool" where
  "ean13_price_embedded_match raw =
     (length raw = 13 \<and> list_all isdigit raw \<and> startswith raw ''2'')"

definition group_itemCode :: "string \<Rightarrow> string" where
  "group_itemCode raw = take 5 (drop 1 raw)"

definition group_price :: "string \<Rightarrow> string" where
  "group_price raw = take 5 (drop 7 raw)"

text \<open>
  The regular expression \<open>_DATABAR_EXPANDED\<close>, \<open>^(01)(\d{13})(.)(.+)$\<close>, is only
  applied to a digit string: it matches when the string starts with \<open>01\<close>, continues
  with thirteen digits and has at least two more characters; group \<open>gtin\<close> is the
  thirteen digits.
\<close>

definition databar_expanded_match :: "string \<Rightarrow> bool" where
  "databar_expanded_match raw =
     (startswith raw ''01'' \<and> length raw \<ge> 17 \<and> list_all isdigit (take 13 (drop 2 raw))
      \<and> CHR 0x0A \<notin> set (drop 15 raw))"

definition group_gtin :: "string \<Rightarrow> string" where
  "group_gtin raw = take 13 (drop 2 raw)"

text \<open>The sections of \<open>normalize_candidates\<close>, each in the order of the source.\<close>

definition upce_section :: "string \<Rightarrow> string \<Rightarrow> string list \<Rightarrow> string list" where
  "upce_section barcode_type raw candidates =
     (if barcode_type \<in> {''UPC-E'', ''UPCE''} \<and> 6 \<le> length raw \<and> length raw \<le> 8 then
        (case expand_upce_to_upca raw of
           None \<Rightarrow> candidates
         | Some upca \<Rightarrow>
             if upca = [] then candidates
             else append_new_nonempty (remove_check_digit_and_pad upca) candidates)
      else candidates)"

definition ean8_section :: "string \<Rightarrow> string \<Rightarrow> string list \<Rightarrow> string list" where
  "ean8_section barcode_type raw candidates =
     (if barcode_type = ''EAN-8'' \<and> length raw = 8 then
        append_new_nonempty (remove_check_digit_and_pad raw) candidates
      else candidates)"

definition databar_section :: "string \<Rightarrow> string \<Rightarrow> string \<Rightarrow> string list \<Rightarrow> string list" where
  "databar_section barcode_type val raw candidates =
     (if barcode_type \<in> {''GS1 DataBar'', ''GS1 DataBar Expanded'', ''DataBar''} then
        let c1 =
              (if startswith val ''01'' \<or> startswith val ''(01)'' then
                 (if databar_expanded_match raw then
                    append_new_nonempty (group_gtin raw) candidates
                  else candidates)
               else candidates)
        in
          if length raw = 16 \<and> startswith raw ''01'' then
            let gtin14 = drop 2 raw;
                c2 = append_new_nonempty gtin14 c1
            in append_new_nonempty (remove_check_digit_and_pad gtin14) c2
          else if length raw = 14 then
            let c2 = append_new raw c1
            in append_new_nonempty (remove_check_digit_and_pad raw) c2
          else c1
      else candidates)"

definition code128_section :: "string \<Rightarrow> string \<Rightarrow> string list \<Rightarrow> string list" where
  "code128_section barcode_type raw candidates =
     (if barcode_type = ''Code 128'' then
        if 9 \<le> length raw \<and> length raw \<le> 11 then
          let v1 = remove_check_digit_and_pad raw;
              v2 = to_padded_raw_barcode raw
          in append_new_nonempty v2 (append_new_nonempty v1 candidates)
        else if length raw = 12 then
          if \<not> startswith raw ''2'' then
            if is_valid_check_digit raw then
              append_new_nonempty (remove_check_digit_and_pad raw) candidates
            else
              append_new_nonempty (to_padded_raw_barcode raw) candidates
          else candidates
        else candidates
      else candidates)"

definition price002_section :: "string \<Rightarrow> string list \<Rightarrow> string list" where
  "price002_section raw candidates =
     (if length raw = 13 \<and> startswith raw ''002'' then
        append_new (take 8 raw @ ''00000'') candidates
      else candidates)"

definition upca_section :: "string \<Rightarrow> string \<Rightarrow> string list \<Rightarrow> string list" where
  "upca_section barcode_type raw candidates =
     (if barcode_type \<in> {''UPC-A'', ''UPCA''} \<and> length raw = 12 then
        append_new_nonempty (remove_check_digit_and_pad raw) candidates
      else candidates)"

definition ean13_section :: "string \<Rightarrow> string \<Rightarrow> string list \<Rightarrow> string list" where
  "ean13_section barcode_type raw candidates =
     (if barcode_type = ''EAN-13'' \<and> length raw = 13 \<and> \<not> startswith raw ''2'' then
        append_new_nonempty (remove_check_digit_and_pad raw) candidates
      else candidates)"

definition normalize_candidates :: "string \<Rightarrow> string \<Rightarrow> string list" where
  "normalize_candidates val barcode_type =
     (let raw = digits_only val in
      if raw = [] then []
      else
        let candidates = [raw] in
        if barcode_type = ''EAN-13'' \<and> length raw = 13 \<and> ean13_price_embedded_match raw then
          let lookup = ljust (''002'' @ group_itemCode raw) 13 (CHR ''0'');
              c1 = append_new lookup candidates;
              no_price = take 8 raw @ ''00000''
          in append_new no_price c1
        else
          ean13_section barcode_type raw
            (upca_section barcode_type raw
              (price002_section raw
                (code128_section barcode_type raw
                  (databar_section barcode_type val raw
                    (ean8_section barcode_type raw
                      (upce_section barcode_type raw candidates)))))))"

text \<open>\<open>int(s)\<close> for a string of digits.\<close>

definition int_of_digits :: "string \<Rightarrow> int" where
  "int_of_digits s = foldl (\<lambda>acc c. 10 * acc + digit_val c) 0 s"

text \<open>\<open>extract_price_from_barcode\<close>; \<open>raw[-5:-1]\<close> of a 13-character string is
  \<open>raw[8:12]\<close>.\<close>

definition extract_price_from_barcode :: "string \<Rightarrow> string \<Rightarrow> int option" where
  "extract_price_from_barcode val barcode_type =
     (let raw = digits_only val in
      if barcode_type = ''EAN-13'' \<and> length raw = 13 \<and> ean13_price_embedded_match raw then
        Some (int_of_digits (group_price raw))
      else if length raw = 13 \<and> startswith raw ''002'' then
        Some (int_of_digits (take 4 (drop 8 raw)))
      else None)"

section \<open>Floating-point arithmetic\<close>

text \<open>
  The source computes overlap ratios, scale factors and resized dimensions with Python
  floats. The model does not fix their rounding: every function that uses floats takes
  the arithmetic as a parameter, a record of the operations the source applies, and the
  results below hold for every such arithmetic. \<open>exact_ops\<close> is the arithmetic without
  rounding, used to run the model on concrete inputs.
\<close>

record 'f float_ops =
  f_of_int :: "int \<Rightarrow> 'f"
  f_lit :: "rat \<Rightarrow> 'f"
  f_mul :: "'f \<Rightarrow> 'f \<Rightarrow> 'f"
  f_div :: "'f \<Rightarrow> 'f \<Rightarrow> 'f"
  f_trunc :: "'f \<Rightarrow> int"
  f_less :: "'f \<Rightarrow> 'f \<Rightarrow> bool"
  f_le :: "'f \<Rightarrow> 'f \<Rightarrow> bool"
  f_eq :: "'f \<Rightarrow> 'f \<Rightarrow> bool"

text \<open>\<open>int(x)\<close> truncates towards zero.\<close>

definition trunc_rat :: "rat \<Rightarrow> int" where
  "trunc_rat r = (if r \<ge> 0 then \<lfloor>r\<rfloor> else \<lceil>r\<rceil>)"

definition exact_ops :: "rat float_ops" where
  "exact_ops =
     \<lparr> f_of_int = of_int, f_lit = (\<lambda>r. r), f_mul = (*), f_div = (/),
       f_trunc = trunc_rat, f_less = (<), f_le = (\<le>), f_eq = (=) \<rparr>"

section \<open>Detections (barcode_parser.py, models.py)\<close>

type_synonym point = "int \<times> int"

record detected_barcode =
  barcode_type :: string
  barcode_value :: string
  quad :: "point list"
  detection_method :: "string option"

record row_draft =
  row_barcode_type :: string
  row_barcode_value :: string
  row_item_name :: "string option"
  row_notes :: "string option"

section \<open>Reconciliation and selection (processor.py)\<close>

record process_options =
  ocr :: bool
  lookup :: bool
  free_lookup :: bool
  deep_lookup :: bool
  plu_all :: bool
  plu_boost :: bool
  allow_gs1_web :: bool
  serp_key :: "string option"
  cse_id :: "string option"
  google_key :: "string option"
  mark_uncertain :: bool

text \<open>
  The collaborators of \<open>process_image_to_rows\<close>: character recognition on the image,
  the product-name lookups, the GS1 element-string parser and the name filter
  \<open>_validate_name\<close>. They are parameters of the model; the image is fixed inside them.
\<close>

record collaborators =
  ocr_upcean_digit_band :: "point list list \<Rightarrow> string option"
  ocr_upcean_numeric :: "point list list \<Rightarrow> string option"
  ocr_bold_name :: "point list \<Rightarrow> string option"
  ocr_item_name :: "point list \<Rightarrow> string option"
  deep_lookup_product_name :: "string \<Rightarrow> string option"
  duckduckgo_lookup :: "string \<Rightarrow> string option"
  lookup_product_name :: "string \<Rightarrow> string option"
  extract_gtin :: "string \<Rightarrow> string option"
  validate_name :: "string option \<Rightarrow> string \<Rightarrow> string option"

text \<open>Python truthiness of an optional string: \<open>None\<close> and the empty string are false.\<close>

definition truthy :: "string option \<Rightarrow> bool" where
  "truthy s = (case s of None \<Rightarrow> False | Some v \<Rightarrow> v \<noteq> [])"

text \<open>\<open>a or b\<close> on optional strings.\<close>

definition py_or :: "string option \<Rightarrow> string option \<Rightarrow> string option" where
  "py_or a b = (if truthy a then a else b)"

definition is_gs1_databar :: "string \<Rightarrow> string \<Rightarrow> bool" where
  "is_gs1_databar btype val = str_contains ''DataBar'' btype"

definition is_price_embedded :: "string \<Rightarrow> string \<Rightarrow> bool" where
  "is_price_embedded btype val =
     (if btype = ''UPC-A'' \<and> startswith val ''2'' then True
      else if btype = ''EAN-13'' \<and>
              take 2 val \<in> {''20'', ''21'', ''22'', ''23'', ''24'', ''25'', ''26'', ''27'', ''28'', ''29''}
      then True
      else False)"

text \<open>
  \<open>_display_value_for\<close>, first component. \<open>DIGITS_ONLY.match\<close> finds the run of digits
  at the start of the value.
\<close>

definition display_value_for :: "collaborators \<Rightarrow> detected_barcode \<Rightarrow> string" where
  "display_value_for env b =
     (if is_gs1_databar (barcode_type b) (barcode_value b) then
        if startswith (barcode_value b) ''('' then barcode_value b
        else
          let gtin0 = extract_gtin env (barcode_value b);
              m = takeWhile isdigit (barcode_value b);
              gtin = (if \<not> truthy gtin0 then
                        (if m \<noteq> [] \<and> length m \<ge> 14 then Some (take 14 m) else gtin0)
                      else gtin0)
          in (case gtin of
                None \<Rightarrow> barcode_value b
              | Some g \<Rightarrow> if g \<noteq> [] \<and> length g = 14 then ''01'' @ g else barcode_value b)
      else barcode_value b)"

definition digit_sum_at :: "string \<Rightarrow> nat list \<Rightarrow> int" where
  "digit_sum_at s idxs = sum_list (map (\<lambda>i. digit_val (s ! i)) idxs)"

definition checksum_ean13 :: "string \<Rightarrow> bool" where
  "checksum_ean13 s =
     (if length s \<noteq> 13 \<or> \<not> str_isdigit s then False
      else
        let sum_odd = digit_sum_at s (filter even [0..<12]);
            sum_even = digit_sum_at s (filter odd [1..<12]);
            check = (10 - ((sum_odd + 3 * sum_even) mod 10)) mod 10
        in check = digit_val (s ! 12))"

definition checksum_ean8 :: "string \<Rightarrow> bool" where
  "checksum_ean8 s =
     (if length s \<noteq> 8 \<or> \<not> str_isdigit s then False
      else
        let sum_odd = digit_sum_at s (filter even [0..<7]);
            sum_even = digit_sum_at s (filter odd [1..<7]);
            check = (10 - ((3 * sum_odd + sum_even) mod 10)) mod 10
        in check = digit_val (s ! 7))"

definition checksum_upca :: "string \<Rightarrow> bool" where
  "checksum_upca s =
     (if length s \<noteq> 12 \<or> \<not> str_isdigit s then False
      else
        let sum_odd = digit_sum_at s (filter even [0..<11]);
            sum_even = digit_sum_at s (filter odd [1..<11]);
            check = (10 - (((sum_odd * 3) + sum_even) mod 10)) mod 10
        in check = digit_val (s ! 11))"

definition is_valid_upcean :: "string \<Rightarrow> string \<Rightarrow> bool" where
  "is_valid_upcean btype val =
     (if btype = ''EAN-13'' then checksum_ean13 val
      else if btype = ''EAN-8'' then checksum_ean8 val
      else if btype = ''UPC-A'' then checksum_upca val
      else True)"

text \<open>
  \<open>_dedupe_and_filter\<close>: the loop over the detections with its three variables
  \<open>seen\<close>, \<open>seen_types\<close> and \<open>unique\<close>.
\<close>

fun dedupe_loop ::
  "detected_barcode list \<Rightarrow> (string \<times> string) set \<Rightarrow> string set \<Rightarrow> detected_barcode list
   \<Rightarrow> detected_barcode list" where
  "dedupe_loop [] seen seen_types unique = unique"
| "dedupe_loop (b # bs) seen seen_types unique =
     (let key = (barcode_type b, barcode_value b) in
      if key \<in> seen then dedupe_loop bs seen seen_types unique
      else if barcode_type b \<in> {''EAN-13'', ''EAN-8'', ''UPC-A''}
              \<and> \<not> is_valid_upcean (barcode_type b) (barcode_value b)
        then dedupe_loop bs seen seen_types unique
      else if barcode_type b \<in> {''UPC-A'', ''EAN-13'', ''UPC-E'', ''EAN-8''} then
        (if barcode_type b \<in> seen_types then dedupe_loop bs seen seen_types unique
         else dedupe_loop bs (insert key seen) (insert (barcode_type b) seen_types) (unique @ [b]))
      else dedupe_loop bs (insert key seen) seen_types (unique @ [b]))"

definition dedupe_and_filter :: "detected_barcode list \<Rightarrow> detected_barcode list" where
  "dedupe_and_filter barcodes = dedupe_loop barcodes {} {} []"

type_synonym box = "int \<times> int \<times> int \<times> int"

text \<open>\<open>_bbox_from_quad\<close>: \<open>(min(xs), min(ys), max(xs), max(ys))\<close>, or \<open>None\<close> without a quad.\<close>

definition bbox_from_quad :: "detected_barcode \<Rightarrow> box option" where
  "bbox_from_quad b =
     (case quad b of
        [] \<Rightarrow> None
      | p # ps \<Rightarrow>
          Some (fold min (map fst ps) (fst p), fold min (map snd ps) (snd p),
                fold max (map fst ps) (fst p), fold max (map snd ps) (snd p)))"

definition overlap_ratio_1d :: "'f float_ops \<Rightarrow> int \<Rightarrow> int \<Rightarrow> int \<Rightarrow> int \<Rightarrow> 'f" where
  "overlap_ratio_1d fl a1 a2 b1 b2 =
     (let left = max a1 b1;
          right = min a2 b2;
          inter = max 0 (right - left);
          la = max 0 (a2 - a1);
          lb = max 0 (b2 - b1);
          min_len = max 1 (min la lb)
      in f_div fl (f_of_int fl inter) (f_of_int fl min_len))"

text \<open>The test of the inner loop: \<open>h_ov >= 0.6 and v_ov <= 0.1\<close>.\<close>

definition stacked :: "'f float_ops \<Rightarrow> box \<Rightarrow> box \<Rightarrow> bool" where
  "stacked fl box_i box_j =
     (case box_i of (ix1, iy1, ix2, iy2) \<Rightarrow>
      case box_j of (jx1, jy1, jx2, jy2) \<Rightarrow>
        let h_ov = overlap_ratio_1d fl ix1 ix2 jx1 jx2;
            v_ov = overlap_ratio_1d fl iy1 iy2 jy1 jy2
        in f_le fl (f_lit fl (6 / 10)) h_ov \<and> f_le fl v_ov (f_lit fl (1 / 10)))"

definition box_top :: "box \<Rightarrow> int" where
  "box_top bx = (case bx of (x1, y1, x2, y2) \<Rightarrow> y1)"

text \<open>The sort key of \<open>_prefer_topmost_stacked\<close>: \<open>t[1][1] if t[1] else 10**9\<close>.\<close>

definition order_key :: "nat \<times> box option \<Rightarrow> int" where
  "order_key t = (case snd t of None \<Rightarrow> 10 ^ 9 | Some bx \<Rightarrow> box_top bx)"

text \<open>
  The inner loop over \<open>order[k+1:]\<close> for the entry \<open>i\<close> with box \<open>box_i\<close>; the last
  branch is the source's \<open>dropped.add(i); break\<close>.
\<close>

fun stacked_inner ::
  "'f float_ops \<Rightarrow> nat \<Rightarrow> box \<Rightarrow> (nat \<times> box option) list \<Rightarrow> nat set \<Rightarrow> nat set" where
  "stacked_inner fl i box_i [] dropped = dropped"
| "stacked_inner fl i box_i ((j, None) # rest) dropped = stacked_inner fl i box_i rest dropped"
| "stacked_inner fl i box_i ((j, Some box_j) # rest) dropped =
     (if j \<in> dropped then stacked_inner fl i box_i rest dropped
      else if stacked fl box_i box_j then
        (if box_top box_i \<le> box_top box_j then
           stacked_inner fl i box_i rest (insert j dropped)
         else insert i dropped)
      else stacked_inner fl i box_i rest dropped)"

text \<open>The outer loop over \<open>order\<close>.\<close>

fun stacked_outer :: "'f float_ops \<Rightarrow> (nat \<times> box option) list \<Rightarrow> nat set \<Rightarrow> nat set" where
  "stacked_outer fl [] dropped = dropped"
| "stacked_outer fl ((i, None) # rest) dropped = stacked_outer fl rest dropped"
| "stacked_outer fl ((i, Some box_i) # rest) dropped =
     (if i \<in> dropped then stacked_outer fl rest dropped
      else stacked_outer fl rest (stacked_inner fl i box_i rest dropped))"

definition stacked_dropped :: "'f float_ops \<Rightarrow> detected_barcode list \<Rightarrow> nat set" where
  "stacked_dropped fl barcodes =
     (let indexed_boxes = enumerate 0 (map bbox_from_quad barcodes);
          order = sort_key order_key indexed_boxes
      in stacked_outer fl order {})"

definition prefer_topmost_stacked ::
  "'f float_ops \<Rightarrow> detected_barcode list \<Rightarrow> detected_barcode list" where
  "prefer_topmost_stacked fl barcodes =
     map snd (filter (\<lambda>(idx, b). idx \<notin> stacked_dropped fl barcodes) (enumerate 0 barcodes))"

definition upcean_types :: "string set" where
  "upcean_types = {''UPC-A'', ''UPC-E'', ''EAN-13'', ''EAN-8''}"

definition is_databar :: "detected_barcode \<Rightarrow> bool" where
  "is_databar b = str_contains ''DataBar'' (barcode_type b)"

definition is_code128 :: "detected_barcode \<Rightarrow> bool" where
  "is_code128 b = (str_contains ''Code'' (barcode_type b) \<and> str_contains ''128'' (barcode_type b))"

text \<open>
  The first statement of \<open>process_image_to_rows\<close>: Data Matrix and QR Code are
  excluded.
\<close>

definition exclude_2d :: "detected_barcode list \<Rightarrow> detected_barcode list" where
  "exclude_2d barcodes =
     filter (\<lambda>b. barcode_type b \<notin> {''Data Matrix'', ''QR Code'', ''QRCode''}) barcodes"

text \<open>
  The recovery of a printed UPC/EAN number when only DataBar codes were read and
  character recognition is enabled.
\<close>

definition ocr_recover ::
  "collaborators \<Rightarrow> process_options \<Rightarrow> detected_barcode list \<Rightarrow> detected_barcode list" where
  "ocr_recover env opts barcodes =
     (let has_upcean = list_ex (\<lambda>b. barcode_type b \<in> upcean_types) barcodes;
          has_gs1_only = (\<not> has_upcean \<and> list_ex is_databar barcodes)
      in
        if has_gs1_only \<and> ocr opts then
          let gs1_quads = map quad (filter is_databar barcodes);
              upc_ocr = py_or (ocr_upcean_digit_band env gs1_quads)
                              (ocr_upcean_numeric env gs1_quads)
          in (case upc_ocr of
                None \<Rightarrow> barcodes
              | Some u \<Rightarrow>
                  if u \<noteq> [] \<and> length u \<in> {12, 13, 8} then
                    let upc_type = (if length u = 13 then ''EAN-13''
                                    else if length u = 12 then ''UPC-A'' else ''EAN-8'')
                    in [\<lparr> barcode_type = upc_type, barcode_value = u, quad = [],
                          detection_method = None \<rparr>]
                  else barcodes)
        else barcodes)"

text \<open>The preference of Code 128 over DataBar and over UPC/EAN, after deduplication.\<close>

definition prefer_code128 :: "detected_barcode list \<Rightarrow> detected_barcode list" where
  "prefer_code128 barcodes =
     (let has_code128 = list_ex is_code128 barcodes;
          has_databar = list_ex is_databar barcodes;
          has_upcean_types = list_ex (\<lambda>b. barcode_type b \<in> upcean_types) barcodes;
          barcodes1 = (if has_code128 \<and> has_databar
                       then filter (\<lambda>b. \<not> is_databar b) barcodes else barcodes);
          barcodes2 = (if has_code128 \<and> has_upcean_types
                       then filter (\<lambda>b. barcode_type b \<notin> upcean_types) barcodes1
                       else barcodes1)
      in barcodes2)"

text \<open>The detections the row loop of \<open>process_image_to_rows\<close> iterates over.\<close>

definition surviving_barcodes ::
  "collaborators \<Rightarrow> process_options \<Rightarrow> detected_barcode list \<Rightarrow> detected_barcode list" where
  "surviving_barcodes env opts barcodes =
     prefer_code128 (dedupe_and_filter (ocr_recover env opts (exclude_2d barcodes)))"

text \<open>The lookups of one row, tried on each candidate until a name is found.\<close>

fun lookup_candidates ::
  "collaborators \<Rightarrow> process_options \<Rightarrow> string list \<Rightarrow> string option \<Rightarrow> string option" where
  "lookup_candidates env opts [] name = name"
| "lookup_candidates env opts (cand # rest) name =
     (let n1 = (if deep_lookup opts
                   \<and> (truthy (serp_key opts) \<or> (truthy (cse_id opts) \<and> truthy (google_key opts)))
                   \<and> \<not> truthy name
                then deep_lookup_product_name env cand else name);
          n2 = (if \<not> truthy n1 \<and> free_lookup opts then duckduckgo_lookup env cand else n1);
          n3 = (if \<not> truthy n2 \<and> lookup opts then lookup_product_name env cand else n2)
      in if truthy n3 then n3 else lookup_candidates env opts rest n3)"

definition difficult_indicators :: "string list" where
  "difficult_indicators =
     [''double'', ''Double'', ''sharp'', ''huge'', ''upscale'',
      ''enhanced'', ''fallback'', ''grid'', ''crop'', ''rotation'']"

definition row_for :: "collaborators \<Rightarrow> process_options \<Rightarrow> detected_barcode \<Rightarrow> row_draft" where
  "row_for env opts b =
     (let is_price = is_price_embedded (barcode_type b) (barcode_value b);
          display_value = display_value_for env b;
          name0 = (if is_price \<and> ocr opts then ocr_bold_name env (quad b) else None);
          allow_web_for_type = (barcode_type b \<in> {''UPC-A'', ''EAN-13'', ''UPC-E'', ''EAN-8''});
          name1 =
            (if \<not> truthy name0 \<and> allow_web_for_type \<and> \<not> is_price then
               let candidates = take 2 (normalize_candidates (barcode_value b) (barcode_type b));
                   n = lookup_candidates env opts candidates name0
               in if \<not> truthy n \<and> ocr opts then ocr_item_name env (quad b) else n
             else name0);
          name = validate_name env name1 (barcode_value b);
          notes0 = (if is_price then Some ''Price-Embedded'' else None);
          detection = (case detection_method b of None \<Rightarrow> [] | Some m \<Rightarrow> m);
          is_difficult = list_ex (\<lambda>indicator. str_contains indicator detection) difficult_indicators;
          notes1 =
            (if mark_uncertain opts \<and> \<not> truthy notes0 \<and> is_difficult then
               Some ''Difficult barcode detection - multiple barcodes may exist, please verify''
             else notes0)
      in \<lparr> row_barcode_type = barcode_type b, row_barcode_value = display_value,
           row_item_name = name, row_notes = notes1 \<rparr>)"

definition process_image_to_rows ::
  "collaborators \<Rightarrow> process_options \<Rightarrow> detected_barcode list \<Rightarrow> row_draft list" where
  "process_image_to_rows env opts barcodes =
     map (row_for env opts) (surviving_barcodes env opts barcodes)"

text \<open>Collaborators that find nothing, and the default options, for running examples.\<close>

definition silent_collaborators :: collaborators where
  "silent_collaborators =
     \<lparr> ocr_upcean_digit_band = (\<lambda>qs. None), ocr_upcean_numeric = (\<lambda>qs. None),
       ocr_bold_name = (\<lambda>q. None), ocr_item_name = (\<lambda>q. None),
       deep_lookup_product_name = (\<lambda>c. None), duckduckgo_lookup = (\<lambda>c. None),
       lookup_product_name = (\<lambda>c. None), extract_gtin = (\<lambda>v. None),
       validate_name = (\<lambda>n v. None) \<rparr>"

definition default_options :: process_options where
  "default_options =
     \<lparr> ocr = False, lookup = False, free_lookup = False, deep_lookup = False,
       plu_all = False, plu_boost = False, allow_gs1_web = False,
       serp_key = None, cse_id = None, google_key = None, mark_uncertain = True \<rparr>"

section \<open>Decode adapter and geometry mapper (barcode_parser.py)\<close>

text \<open>
  The exceptions the model keeps: the division by a zero \<open>max_side\<close>, the
  \<open>ValueError\<close> of the image library, and whatever the decoder library raises.
\<close>

datatype py_error = ZeroDivisionError | ValueError | DecoderError

text \<open>The symbologies that occur in format masks; a mask is a set of them.\<close>

datatype fmt = UPCA | UPCE | EAN13 | EAN8 | Code128

text \<open>
  One result of the zxing decoder: \<open>str(r.format)\<close>, \<open>r.text or ""\<close> and, when the
  result has a position, its corners top-left, top-right, bottom-right, bottom-left.
\<close>

record zx_result =
  zx_format :: string
  zx_text :: string
  zx_position :: "(point \<times> point \<times> point \<times> point) option"

text \<open>
  The image library and the decoders. Images are values of a type \<open>'i\<close>, the arrays
  of the OpenCV pipeline of a type \<open>'c\<close>. \<open>read_barcodes\<close> is
  \<open>_read_barcodes_with_opts\<close>, with the format mask when there is one;
  \<open>cv_prepare\<close> is the preprocessing of \<open>_code128_focused\<close> for one channel, kernel,
  inversion, scale and angle; \<open>zbar_code128\<close> is the ZBar call restricted to Code 128,
  giving the type and the decoded data of each read. \<open>img_resize\<close> is
  \<open>Image.resize\<close>, which raises on some sizes (Pillow rejects a requested size with a
  side below 1: \<open>ValueError: height and width must be > 0\<close>); the model follows the
  exception from each call of \<open>resize\<close> to the handler the source has for it, or out
  of \<open>detect_barcodes\<close>. Rotation, grayscale conversion, contrast and sharpening
  accept every image, and the cascade crops only boxes more than 40 pixels wide and
  high: these operations are total.
\<close>

record ('i, 'c) imaging =
  img_resize :: "'i \<Rightarrow> int \<times> int \<Rightarrow> py_error + 'i"
  img_rotate :: "'i \<Rightarrow> int \<Rightarrow> 'i"
  img_crop :: "'i \<Rightarrow> box \<Rightarrow> 'i"
  img_gray_autocontrast :: "'i \<Rightarrow> 'i"
  img_contrast :: "'i \<Rightarrow> rat \<Rightarrow> 'i"
  img_sharpen :: "'i \<Rightarrow> 'i"
  read_barcodes :: "'i \<Rightarrow> fmt set option \<Rightarrow> py_error + zx_result list"
  zbar_available :: bool
  cv2_available :: bool
  cv_channels :: "'i \<Rightarrow> 'c list"
  cv_prepare :: "'c \<Rightarrow> int \<times> int \<Rightarrow> bool \<Rightarrow> rat \<Rightarrow> int \<Rightarrow> 'c"
  zbar_code128 :: "'c \<Rightarrow> py_error + (string \<times> string) list"

text \<open>\<open>s.replace(old, new)\<close> for a non-empty \<open>old\<close>, the only use in the source.\<close>

function str_replace :: "string \<Rightarrow> string \<Rightarrow> string \<Rightarrow> string" where
  "str_replace old new s =
     (if s = [] \<or> old = [] then s
      else if startswith s old then new @ str_replace old new (drop (length old) s)
      else hd s # str_replace old new (tl s))"
  by pat_completeness auto
termination
  by (relation "measure (\<lambda>(old, new, s). length s)") auto

definition FRIENDLY_FORMAT :: "(string \<times> string) list" where
  "FRIENDLY_FORMAT =
     [(''BarcodeFormat.UPCA'', ''UPC-A''),
      (''BarcodeFormat.UPCE'', ''UPC-E''),
      (''BarcodeFormat.EAN13'', ''EAN-13''),
      (''BarcodeFormat.EAN8'', ''EAN-8''),
      (''BarcodeFormat.CODE128'', ''Code 128''),
      (''BarcodeFormat.CODE39'', ''Code 39''),
      (''BarcodeFormat.ITF'', ''ITF''),
      (''BarcodeFormat.QRCode'', ''QR Code''),
      (''BarcodeFormat.DataMatrix'', ''Data Matrix''),
      (''BarcodeFormat.RSS14'', ''GS1 DataBar''),
      (''BarcodeFormat.RSS_EXPANDED'', ''GS1 DataBar Expanded'')]"

definition friendly_format :: "string \<Rightarrow> string" where
  "friendly_format text =
     (case map_of FRIENDLY_FORMAT text of
        Some name \<Rightarrow> name
      | None \<Rightarrow> str_replace ''QRCode'' ''QR Code'' (str_replace ''BarcodeFormat.'' [] text))"

definition extract_quad :: "(point \<times> point \<times> point \<times> point) option \<Rightarrow> point list" where
  "extract_quad position =
     (case position of
        None \<Rightarrow> []
      | Some (top_left, top_right, bottom_right, bottom_left) \<Rightarrow>
          [top_left, top_right, bottom_right, bottom_left])"

text \<open>\<open>_to_detected\<close>: results without text are left out.\<close>

fun to_detected :: "zx_result list \<Rightarrow> detected_barcode list" where
  "to_detected [] = []"
| "to_detected (r # results) =
     (let fmt = friendly_format (zx_format r);
          text = zx_text r;
          quad = extract_quad (zx_position r)
      in if text \<noteq> [] then
           \<lparr> barcode_type = fmt, barcode_value = text, quad = quad, detection_method = None \<rparr>
             # to_detected results
         else to_detected results)"

text \<open>\<open>_try_decode\<close> lets the decoder's exception through.\<close>

definition try_decode :: "('i, 'c) imaging \<Rightarrow> 'i \<Rightarrow> py_error + detected_barcode list" where
  "try_decode env img =
     (case read_barcodes env img None of
        Inl e \<Rightarrow> Inl e
      | Inr results \<Rightarrow> Inr (to_detected results))"

text \<open>\<open>_try_decode_formats\<close> turns it into an empty result.\<close>

definition try_decode_formats :: "('i, 'c) imaging \<Rightarrow> 'i \<Rightarrow> fmt set \<Rightarrow> detected_barcode list" where
  "try_decode_formats env img formats_mask =
     (case read_barcodes env img (Some formats_mask) of
        Inl e \<Rightarrow> []
      | Inr results \<Rightarrow> to_detected results)"

text \<open>The loop shared by \<open>_try_decode_with_map\<close> and \<open>_try_decode_with_map_formats\<close>.\<close>

fun map_detected ::
  "'f float_ops \<Rightarrow> int \<Rightarrow> int \<Rightarrow> 'f \<Rightarrow> zx_result list \<Rightarrow> detected_barcode list" where
  "map_detected fl ox oy inv_scale [] = []"
| "map_detected fl ox oy inv_scale (r # results) =
     (let fmt = friendly_format (zx_format r);
          text = zx_text r;
          quad_raw = extract_quad (zx_position r);
          quad = map (\<lambda>(x, y). (ox + f_trunc fl (f_mul fl (f_of_int fl x) inv_scale),
                                 oy + f_trunc fl (f_mul fl (f_of_int fl y) inv_scale))) quad_raw
      in if text \<noteq> [] then
           \<lparr> barcode_type = fmt, barcode_value = text, quad = quad, detection_method = None \<rparr>
             # map_detected fl ox oy inv_scale results
         else map_detected fl ox oy inv_scale results)"

text \<open>\<open>inv = 1.0 / scale if scale != 0 else 1.0\<close>.\<close>

definition inverse_scale :: "'f float_ops \<Rightarrow> 'f \<Rightarrow> 'f" where
  "inverse_scale fl scale =
     (if \<not> f_eq fl scale (f_lit fl 0) then f_div fl (f_lit fl 1) scale else f_lit fl 1)"

definition try_decode_with_map ::
  "'f float_ops \<Rightarrow> ('i, 'c) imaging \<Rightarrow> 'i \<Rightarrow> point \<Rightarrow> 'f \<Rightarrow> py_error + detected_barcode list" where
  "try_decode_with_map fl env img offset scale =
     (case read_barcodes env img None of
        Inl e \<Rightarrow> Inl e
      | Inr results \<Rightarrow>
          Inr (map_detected fl (fst offset) (snd offset) (inverse_scale fl scale) results))"

definition try_decode_with_map_formats ::
  "'f float_ops \<Rightarrow> ('i, 'c) imaging \<Rightarrow> 'i \<Rightarrow> point \<Rightarrow> 'f \<Rightarrow> fmt set \<Rightarrow> detected_barcode list" where
  "try_decode_with_map_formats fl env img offset scale formats_mask =
     (case read_barcodes env img (Some formats_mask) of
        Inl e \<Rightarrow> []
      | Inr results \<Rightarrow>
          map_detected fl (fst offset) (snd offset) (inverse_scale fl scale) results)"

text \<open>
  The remapping in the words of the specification: the crop origin plus the raw point
  multiplied by the inverse of the scale, truncated to an integer.
\<close>

definition spec_remap :: "'f float_ops \<Rightarrow> point \<Rightarrow> 'f \<Rightarrow> point \<Rightarrow> point" where
  "spec_remap fl offset s p =
     (fst offset + f_trunc fl (f_mul fl (f_of_int fl (fst p)) (f_div fl (f_lit fl 1) s)),
      snd offset + f_trunc fl (f_mul fl (f_of_int fl (snd p)) (f_div fl (f_lit fl 1) s)))"

section \<open>Transform cascade (barcode_parser.py)\<close>

text \<open>
  \<open>_grid_boxes\<close>: the cell in row \<open>gy\<close> and column \<open>gx\<close> of a \<open>grid\<close> by \<open>grid\<close>
  partition, expanded by 30 percent and kept when it is more than 40 pixels in both
  directions; the cells row by row.
\<close>

definition grid_cell :: "'f float_ops \<Rightarrow> int \<Rightarrow> int \<Rightarrow> int \<Rightarrow> int \<Rightarrow> int \<Rightarrow> box list" where
  "grid_cell fl w h grid gy gx =
     (let cell_w = w div grid;
          cell_h = h div grid;
          l = gx * cell_w;
          t = gy * cell_h;
          r = (if gx = grid - 1 then w else (gx + 1) * cell_w);
          b = (if gy = grid - 1 then h else (gy + 1) * cell_h);
          exp_x = f_trunc fl (f_mul fl (f_of_int fl (r - l)) (f_lit fl (3 / 10)));
          exp_y = f_trunc fl (f_mul fl (f_of_int fl (b - t)) (f_lit fl (3 / 10)));
          el = max 0 (l - exp_x);
          et = max 0 (t - exp_y);
          er = min w (r + exp_x);
          eb = min h (b + exp_y)
      in if er - el > 40 \<and> eb - et > 40 then [(el, et, er, eb)] else [])"

definition grid_boxes :: "'f float_ops \<Rightarrow> int \<Rightarrow> int \<Rightarrow> int \<Rightarrow> box list" where
  "grid_boxes fl w h grid =
     concat (map (\<lambda>gy. concat (map (\<lambda>gx. grid_cell fl w h grid gy gx) [0..grid - 1]))
                 [0..grid - 1])"

text \<open>\<open>val.strip()\<close> on ASCII text.\<close>

definition isspace :: "char \<Rightarrow> bool" where
  "isspace c = (of_char c \<in> {9, 10, 11, 12, 13, 28, 29, 30, 31, 32 :: nat})"

definition str_strip :: "string \<Rightarrow> string" where
  "str_strip s = rev (dropWhile isspace (rev (dropWhile isspace s)))"

text \<open>
  The loop over the reads of one ZBar call in \<open>_code128_focused\<close>: the first read of
  type \<open>CODE128\<close> whose stripped text has more than ten characters.
\<close>

fun first_long_code128 :: "(string \<times> string) list \<Rightarrow> string option" where
  "first_long_code128 [] = None"
| "first_long_code128 ((typ, data) # decoded) =
     (if typ = ''CODE128'' then
        let val = str_strip data in
        if val \<noteq> [] \<and> length val > 10 then Some val else first_long_code128 decoded
      else first_long_code128 decoded)"

text \<open>
  The nested loops of \<open>_code128_focused\<close> over the prepared images, in their order;
  an exception of the ZBar call counts as no read.
\<close>

fun code128_scan :: "('i, 'c) imaging \<Rightarrow> 'c list \<Rightarrow> detected_barcode list" where
  "code128_scan env [] = []"
| "code128_scan env (rot_img # others) =
     (let decoded = (case zbar_code128 env rot_img of Inl e \<Rightarrow> [] | Inr d \<Rightarrow> d) in
      case first_long_code128 decoded of
        Some val \<Rightarrow>
          [\<lparr> barcode_type = ''Code 128'', barcode_value = val, quad = [],
             detection_method = None \<rparr>]
      | None \<Rightarrow> code128_scan env others)"

definition code128_focused :: "('i, 'c) imaging \<Rightarrow> 'i \<Rightarrow> bool \<Rightarrow> detected_barcode list" where
  "code128_focused env img aggressive =
     (if \<not> zbar_available env then []
      else if \<not> cv2_available env then []
      else
        let channels = cv_channels env img;
            scales = (if aggressive then [18 / 10, 15 / 10, 12 / 10] else [14 / 10]);
            kernels = [(31, 5)];
            angles = (if aggressive then [0, - 3, 3, - 6, 6, - 9, 9] else [0])
        in code128_scan env
             (concat (map (\<lambda>ch.
                concat (map (\<lambda>kernel.
                  concat (map (\<lambda>inverted.
                    concat (map (\<lambda>s.
                      map (\<lambda>ang. cv_prepare env ch kernel inverted s ang) angles)
                    scales))
                  [False, True]))
                kernels))
              channels)))"

text \<open>
  One decode attempt of the cascade: the function of the source it calls, with the
  image and the other arguments. \<open>Resize_error\<close> stands for a tier whose image could
  not be built: its call of \<open>resize\<close>, outside any \<open>try\<close>, raised the exception, and
  the tier makes no decoder call.
\<close>

datatype ('i, 'f) tier_call =
    Decode 'i
  | Decode_formats 'i "fmt set"
  | Decode_with_map 'i point 'f
  | Code128_focused 'i
  | Resize_error py_error

text \<open>What the attempt returns to \<open>detect_barcodes\<close>.\<close>

definition tier_outcome ::
  "'f float_ops \<Rightarrow> ('i, 'c) imaging \<Rightarrow> ('i, 'f) tier_call \<Rightarrow> py_error + detected_barcode list" where
  "tier_outcome fl env call =
     (case call of
        Decode img \<Rightarrow> try_decode env img
      | Decode_formats img formats_mask \<Rightarrow> Inr (try_decode_formats env img formats_mask)
      | Decode_with_map img offset scale \<Rightarrow> try_decode_with_map fl env img offset scale
      | Code128_focused img \<Rightarrow> Inr (code128_focused env img True)
      | Resize_error e \<Rightarrow> Inl e)"

text \<open>
  A tier on a resized image, where the source resizes outside any \<open>try\<close>:
  \<open>scaled = img.resize(new_size)\<close> and then the decode attempt on \<open>scaled\<close>.
\<close>

definition resized ::
  "('i, 'c) imaging \<Rightarrow> 'i \<Rightarrow> int \<times> int \<Rightarrow> ('i \<Rightarrow> ('i, 'f) tier_call) \<Rightarrow> ('i, 'f) tier_call" where
  "resized env img new_size call =
     (case img_resize env img new_size of
        Inl e \<Rightarrow> Resize_error e
      | Inr scaled \<Rightarrow> call scaled)"

text \<open>\<open>for r in res: r.detection_method = label\<close>, for the tiers that have a label.\<close>

definition set_method :: "string option \<Rightarrow> detected_barcode list \<Rightarrow> detected_barcode list" where
  "set_method label res =
     (case label of
        None \<Rightarrow> res
      | Some m \<Rightarrow> map (\<lambda>r. r\<lparr> detection_method := Some m \<rparr>) res)"

text \<open>
  The record of a run, for counting calls: the quick scan of the orientation
  pre-check, and each tier the run reaches with what its attempt returned or raised.
\<close>

datatype ('i, 'f) event =
    Quick_scan 'i
  | Attempt "('i, 'f) tier_call" "py_error + detected_barcode list"

text \<open>
  Every tier of \<open>detect_barcodes\<close> is a decode attempt followed by
  \<open>if res: return res\<close>, after setting the method label where the tier has one.
  \<open>run_tiers\<close> makes the attempts of a list of tiers in order; an exception of an
  attempt, or of the \<open>resize\<close> that prepares it, ends the run; the last equation is
  the final \<open>return []\<close>.
\<close>

fun run_tiers ::
  "'f float_ops \<Rightarrow> ('i, 'c) imaging \<Rightarrow> (('i, 'f) tier_call \<times> string option) list
   \<Rightarrow> ('i, 'f) event list \<Rightarrow> ('i, 'f) event list \<times> (py_error + detected_barcode list)" where
  "run_tiers fl env [] trace = (trace, Inr [])"
| "run_tiers fl env ((call, label) # tiers) trace =
     (case tier_outcome fl env call of
        Inl e \<Rightarrow> (trace @ [Attempt call (Inl e)], Inl e)
      | Inr res \<Rightarrow>
          if res \<noteq> [] then (trace @ [Attempt call (Inr res)], Inr (set_method label res))
          else run_tiers fl env tiers (trace @ [Attempt call (Inr res)]))"

text \<open>\<open>(int(w * k), int(h * k))\<close>.\<close>

definition scale_size :: "'f float_ops \<Rightarrow> int \<times> int \<Rightarrow> 'f \<Rightarrow> int \<times> int" where
  "scale_size fl isize k =
     (f_trunc fl (f_mul fl (f_of_int fl (fst isize)) k),
      f_trunc fl (f_mul fl (f_of_int fl (snd isize)) k))"

text \<open>
  The image \<open>base\<close> and its size: the source image, downscaled when \<open>max_side\<close> is
  given and smaller than the longest side. A \<open>max_side\<close> of zero raises
  \<open>ZeroDivisionError\<close>, and the exception of \<open>img.resize(new_size)\<close> leaves
  \<open>detect_barcodes\<close> before any decode attempt.
\<close>

definition base_image ::
  "'f float_ops \<Rightarrow> ('i, 'c) imaging \<Rightarrow> 'i \<Rightarrow> int \<times> int \<Rightarrow> int option
   \<Rightarrow> py_error + ('i \<times> (int \<times> int))" where
  "base_image fl env img isize max_side =
     (case max_side of
        None \<Rightarrow> Inr (img, isize)
      | Some m \<Rightarrow>
          if m = 0 then Inl ZeroDivisionError
          else
            let w = fst isize; h = snd isize;
                scale = f_div fl (f_of_int fl (max w h)) (f_of_int fl m)
            in if f_less fl (f_lit fl 1) scale then
                 let new_size = (f_trunc fl (f_div fl (f_of_int fl w) scale),
                                 f_trunc fl (f_div fl (f_of_int fl h) scale))
                 in (case img_resize env img new_size of
                       Inl e \<Rightarrow> Inl e
                     | Inr scaled \<Rightarrow> Inr (scaled, new_size))
               else Inr (img, isize))"

text \<open>
  The test of the orientation pre-check on one position: the height of the bounding
  box exceeds 1.3 times its width.
\<close>

definition is_vertical :: "'f float_ops \<Rightarrow> point \<times> point \<times> point \<times> point \<Rightarrow> bool" where
  "is_vertical fl position =
     (let points = extract_quad (Some position);
          xs = map fst points;
          ys = map snd points;
          width = fold max (tl xs) (hd xs) - fold min (tl xs) (hd xs);
          height = fold max (tl ys) (hd ys) - fold min (tl ys) (hd ys)
      in f_less fl (f_mul fl (f_of_int fl width) (f_lit fl (13 / 10))) (f_of_int fl height))"

text \<open>
  The quick scan: whether some result with a position is vertical. An exception of
  the scan is swallowed and means no.
\<close>

definition vertical_probe :: "'f float_ops \<Rightarrow> ('i, 'c) imaging \<Rightarrow> 'i \<Rightarrow> bool" where
  "vertical_probe fl env base =
     (case read_barcodes env base None of
        Inl e \<Rightarrow> False
      | Inr quick_scan \<Rightarrow>
          list_ex (\<lambda>result. case zx_position result of
                               None \<Rightarrow> False
                             | Some position \<Rightarrow> is_vertical fl position) quick_scan)"

definition upc_formats :: "fmt set" where
  "upc_formats = {UPCA, UPCE, EAN13, EAN8}"

text \<open>The retries of the pre-check on a vertical barcode: rotations by 90 and -90.\<close>

definition vertical_tiers ::
  "'f float_ops \<Rightarrow> ('i, 'c) imaging \<Rightarrow> 'i \<Rightarrow> (('i, 'f) tier_call \<times> string option) list" where
  "vertical_tiers fl env base =
     (if vertical_probe fl env base then
        [(Decode_formats (img_rotate env base 90) upc_formats, Some ''upc-vertical-rotated-90''),
         (Decode_formats (img_rotate env base (- 90)) upc_formats,
          Some ''upc-vertical-rotated--90'')]
      else [])"

text \<open>One cell of the grid fallback: the crop, upscaled to 1600 pixels when smaller.\<close>

definition grid_tier ::
  "'f float_ops \<Rightarrow> ('i, 'c) imaging \<Rightarrow> 'i \<Rightarrow> box \<Rightarrow> ('i, 'f) tier_call \<times> string option" where
  "grid_tier fl env img cell =
     (case cell of (l, t, r, b) \<Rightarrow>
        let crop = img_crop env img (l, t, r, b);
            cw = r - l;
            ch = b - t;
            max_dim = max cw ch
        in if max_dim < 1600 then
             let scale = f_div fl (f_lit fl 1600) (f_of_int fl max_dim)
             in (resized env crop (scale_size fl (cw, ch) scale)
                   (\<lambda>scaled. Decode_with_map scaled (l, t) scale),
                 None)
           else (Decode_with_map crop (l, t) (f_lit fl 1), None))"

text \<open>
  The image of the final fallback: \<open>base\<close>, downscaled to 2400 pixels when larger,
  or the exception of that \<open>resize\<close>.
\<close>

definition code128_image ::
  "'f float_ops \<Rightarrow> ('i, 'c) imaging \<Rightarrow> 'i \<Rightarrow> int \<times> int \<Rightarrow> py_error + 'i" where
  "code128_image fl env base bsize =
     (let w = fst bsize; h = snd bsize in
      if max w h > 2400 then
        let scale = f_div fl (f_lit fl 2400) (f_of_int fl (max w h))
        in img_resize env base (scale_size fl bsize scale)
      else Inr base)"

text \<open>
  The tiers of \<open>detect_barcodes\<close> after the pre-check, in the order of the source.
  \<open>isize\<close> is the size of the source image \<open>img\<close> and \<open>bsize\<close> that of \<open>base\<close>.
  The UPC/EAN tiers of the effort flag (contrast, upscale, triple sharpening) share
  one \<open>try\<close>: when the upscale raises, the \<open>except\<close> clause skips the upscaled and the
  triple-sharpened attempt. Every other \<open>resize\<close> is outside any \<open>try\<close>.
\<close>

definition general_tiers ::
  "'f float_ops \<Rightarrow> ('i, 'c) imaging \<Rightarrow> 'i \<Rightarrow> int \<times> int \<Rightarrow> 'i \<Rightarrow> int \<times> int \<Rightarrow> bool
   \<Rightarrow> (('i, 'f) tier_call \<times> string option) list" where
  "general_tiers fl env img isize base bsize aggressive =
     (let w = fst bsize; h = snd bsize;
          sharp = img_sharpen env;
          upscaled = (\<lambda>k. resized env base (scale_size fl bsize (f_lit fl k)));
          triple_sharp = (Decode_formats (sharp (sharp (sharp base))) upc_formats,
                          Some ''upc-triple-sharpened (difficult)'')
      in
        (if aggressive then
           map (\<lambda>a. (Decode (img_rotate env base a), None)) [- 4, 4, - 8]
           @ (if max w h < 1800 then [(upscaled 2 Decode, None)] else [])
         else [])
        @ map (\<lambda>v. (Decode v, None))
            [base, img_rotate env base 90, img_rotate env base 180, img_rotate env base 270,
             img_gray_autocontrast env base, img_contrast env base (16 / 10), sharp base]
        @ (if max w h < 1200
           then [(upscaled (if aggressive then 22 / 10 else 18 / 10) Decode, None)] else [])
        @ (if aggressive
           then map (grid_tier fl env img) (grid_boxes fl (fst isize) (snd isize) 3) else [])
        @ [(Decode_formats base {Code128, UPCA, UPCE, EAN13, EAN8}, None)]
        @ (if aggressive then
             [(Decode_formats (img_contrast env base (18 / 10)) upc_formats,
               Some ''upc-contrast-enhanced'')]
             @ (if max w h < 2200 then
                  (case img_resize env base (scale_size fl bsize (f_lit fl (22 / 10))) of
                     Inl e \<Rightarrow> []
                   | Inr scaled \<Rightarrow>
                       [(Decode_formats scaled upc_formats, Some ''upc-upscaled''), triple_sharp])
                else [triple_sharp])
             @ [(Decode (sharp (sharp base)), Some ''double-sharpened (difficult)''),
                (Decode (sharp (sharp (img_contrast env base 2))),
                 Some ''high-contrast-enhanced (difficult)'')]
             @ (if max w h < 2000
                then [(upscaled (25 / 10) Decode, Some ''large-upscaled (difficult)'')] else [])
             @ (if max w h \<ge> 2000
                then [(upscaled (15 / 10) (\<lambda>scaled. Decode_formats scaled {Code128}),
                       Some ''code128-large-upscaled (difficult)'')]
                else [])
           else [])
        @ (if aggressive
           then [(case code128_image fl env base bsize of
                    Inl e \<Rightarrow> Resize_error e
                  | Inr code128_img \<Rightarrow> Code128_focused code128_img, None)]
           else []))"

text \<open>All tiers of a run, the retries of the pre-check first.\<close>

definition cascade_tiers ::
  "'f float_ops \<Rightarrow> ('i, 'c) imaging \<Rightarrow> 'i \<Rightarrow> int \<times> int \<Rightarrow> 'i \<Rightarrow> int \<times> int \<Rightarrow> bool
   \<Rightarrow> (('i, 'f) tier_call \<times> string option) list" where
  "cascade_tiers fl env img isize base bsize aggressive =
     vertical_tiers fl env base @ general_tiers fl env img isize base bsize aggressive"

text \<open>
  \<open>detect_barcodes\<close> on an image that is already loaded: the record of the run and
  the result or the exception.
\<close>

definition detect_barcodes ::
  "'f float_ops \<Rightarrow> ('i, 'c) imaging \<Rightarrow> 'i \<Rightarrow> int \<times> int \<Rightarrow> int option \<Rightarrow> bool
   \<Rightarrow> ('i, 'f) event list \<times> (py_error + detected_barcode list)" where
  "detect_barcodes fl env img isize max_side aggressive =
     (case base_image fl env img isize max_side of
        Inl e \<Rightarrow> ([], Inl e)
      | Inr (base, bsize) \<Rightarrow>
          run_tiers fl env (cascade_tiers fl env img isize base bsize aggressive)
            [Quick_scan base])"

text \<open>
  Images and arrays as the recipes that produce them, and the image library that
  builds them, for running the cascade on a stubbed decoder. \<open>pillow_resize\<close> is the
  rule of Pillow's \<open>resize\<close>: a requested size with a side below 1 is a
  \<open>ValueError\<close>.
\<close>

datatype image =
    Source
  | Resized image "int \<times> int"
  | Rotated image int
  | Cropped image box
  | Gray image
  | Contrasted image rat
  | Sharpened image

datatype cv_image =
    Channel image nat
  | Prepared cv_image "int \<times> int" bool rat int

definition pillow_resize :: "image \<Rightarrow> int \<times> int \<Rightarrow> py_error + image" where
  "pillow_resize img new_size =
     (if fst new_size < 1 \<or> snd new_size < 1 then Inl ValueError
      else Inr (Resized img new_size))"

definition stub_imaging ::
  "(image \<Rightarrow> fmt set option \<Rightarrow> py_error + zx_result list)
   \<Rightarrow> (cv_image \<Rightarrow> py_error + (string \<times> string) list) \<Rightarrow> (image, cv_image) imaging" where
  "stub_imaging reader zbar =
     \<lparr> img_resize = pillow_resize, img_rotate = Rotated, img_crop = Cropped,
       img_gray_autocontrast = Gray, img_contrast = Contrasted, img_sharpen = Sharpened,
       read_barcodes = reader, zbar_available = True, cv2_available = True,
       cv_channels = (\<lambda>img. map (Channel img) [0, 1, 2, 3]),
       cv_prepare = Prepared, zbar_code128 = zbar \<rparr>"

text \<open>
  The invariant of the candidate list of \<open>normalize_candidates\<close>: it starts with the
  digit string and holds no string twice.
\<close>

definition cand_inv :: "string \<Rightarrow> string list \<Rightarrow> bool" where
  "cand_inv raw cs = (cs \<noteq> [] \<and> hd cs = raw \<and> distinct cs)"

text \<open>Detections for the examples.\<close>

definition mk_barcode :: "string \<Rightarrow> string \<Rightarrow> point list \<Rightarrow> detected_barcode" where
  "mk_barcode t v q =
     \<lparr> barcode_type = t, barcode_value = v, quad = q, detection_method = None \<rparr>"

definition rect :: "int \<Rightarrow> int \<Rightarrow> int \<Rightarrow> int \<Rightarrow> point list" where
  "rect x1 y1 x2 y2 = [(x1, y1), (x2, y1), (x2, y2), (x1, y2)]"

text \<open>The key of the set \<open>seen\<close> of \<open>_dedupe_and_filter\<close>.\<close>

abbreviation (input) bkey :: "detected_barcode \<Rightarrow> string \<times> string" where
  "bkey b \<equiv> (barcode_type b, barcode_value b)"

text \<open>A list of reads of one image: an invalid and two valid EAN-13, UPC-E reads and
  a repeated Code 128.\<close>

definition example_reads :: "detected_barcode list" where
  "example_reads =
     [mk_barcode ''EAN-13'' ''4006381333932'' [],
      mk_barcode ''EAN-13'' ''4006381333931'' [],
      mk_barcode ''EAN-13'' ''5901234123457'' [],
      mk_barcode ''UPC-E'' ''99'' [],
      mk_barcode ''UPC-E'' ''01234565'' [],
      mk_barcode ''Code 128'' ''ABC'' [],
      mk_barcode ''Code 128'' ''ABC'' (rect 0 0 10 10)]"

text \<open>The indices of the entries of an order that have a bounding box.\<close>

definition boxed :: "(nat \<times> box option) list \<Rightarrow> nat set" where
  "boxed R = {j. \<exists>bj. (j, Some bj) \<in> set R}"

text \<open>The list \<open>order\<close> of \<open>_prefer_topmost_stacked\<close>.\<close>

definition stack_order :: "detected_barcode list \<Rightarrow> (nat \<times> box option) list" where
  "stack_order bs = sort_key order_key (enumerate 0 (map bbox_from_quad bs))"

text \<open>
  Two reads whose quads have the same horizontal extent and do not overlap
  vertically (y from 0 to 50 and from 200 to 250), and three reads of which the
  second lies under the first and the third under the second, but not under the first.
\<close>

definition stacked_reads :: "detected_barcode list" where
  "stacked_reads =
     [mk_barcode ''Code 128'' ''AAA'' (rect 0 0 100 50),
      mk_barcode ''Code 128'' ''BBB'' (rect 0 200 100 250)]"

definition chain_reads :: "detected_barcode list" where
  "chain_reads =
     [mk_barcode ''Code 128'' ''A'' (rect 0 0 100 10),
      mk_barcode ''Code 128'' ''B'' (rect 40 100 140 110),
      mk_barcode ''Code 128'' ''C'' (rect 80 200 180 210)]"

text \<open>
  A detection with its quad removed: two lists of detections with the same image
  under \<open>without_quad\<close> differ only in their quads.
\<close>

definition without_quad :: "detected_barcode \<Rightarrow> detected_barcode" where
  "without_quad b = b\<lparr> quad := [] \<rparr>"

text \<open>
  The condition \<open>has_gs1_only and opts.ocr\<close> of \<open>process_image_to_rows\<close>, under which
  the recovery by character recognition is tried.
\<close>

definition ocr_recovery_tried :: "process_options \<Rightarrow> detected_barcode list \<Rightarrow> bool" where
  "ocr_recovery_tried opts barcodes =
     (let kept = exclude_2d barcodes;
          has_upcean = list_ex (\<lambda>b. barcode_type b \<in> upcean_types) kept;
          has_gs1_only = (\<not> has_upcean \<and> list_ex is_databar kept)
      in has_gs1_only \<and> ocr opts)"

text \<open>A row without its item name: symbology, displayed value and notes.\<close>

definition row_key :: "row_draft \<Rightarrow> string \<times> string \<times> string option" where
  "row_key r = (row_barcode_type r, row_barcode_value r, row_notes r)"

text \<open>The two stacked reads placed side by side instead.\<close>

definition apart_reads :: "detected_barcode list" where
  "apart_reads =
     [mk_barcode ''Code 128'' ''AAA'' (rect 0 0 100 50),
      mk_barcode ''Code 128'' ''BBB'' (rect 200 0 300 50)]"

text \<open>An EAN-13 read and a Code 128 read of the same image.\<close>

definition scenario_reads :: "detected_barcode list" where
  "scenario_reads =
     [mk_barcode ''EAN-13'' ''4006381333931'' (rect 0 0 100 50),
      mk_barcode ''Code 128'' ''4006381333931XYZ'' (rect 0 200 100 250)]"

text \<open>A QR Code, a Data Matrix and an EAN-13 read of the same image.\<close>

definition two_d_reads :: "detected_barcode list" where
  "two_d_reads =
     [mk_barcode ''QR Code'' ''https://example.org'' (rect 0 0 50 50),
      mk_barcode ''Data Matrix'' ''0104006381333931'' [],
      mk_barcode ''EAN-13'' ''4006381333931'' (rect 0 200 100 250)]"

text \<open>The record of the attempt of a tier.\<close>

definition attempt_of ::
  "'f float_ops \<Rightarrow> ('i, 'c) imaging \<Rightarrow> ('i, 'f) tier_call \<times> string option \<Rightarrow> ('i, 'f) event" where
  "attempt_of fl env tier = Attempt (fst tier) (tier_outcome fl env (fst tier))"

text \<open>
  The number of tiers, from the first, whose attempt returns the empty list: the
  index of the first tier that returns a result or raises.
\<close>

definition stop_index ::
  "'f float_ops \<Rightarrow> ('i, 'c) imaging \<Rightarrow> (('i, 'f) tier_call \<times> string option) list \<Rightarrow> nat" where
  "stop_index fl env tiers =
     length (takeWhile (\<lambda>tier. tier_outcome fl env (fst tier) = Inr []) tiers)"

text \<open>What a run returns when the given tiers are the ones from the stop index on.\<close>

definition result_at ::
  "'f float_ops \<Rightarrow> ('i, 'c) imaging \<Rightarrow> (('i, 'f) tier_call \<times> string option) list
   \<Rightarrow> py_error + detected_barcode list" where
  "result_at fl env tiers =
     (case tiers of
        [] \<Rightarrow> Inr []
      | tier # _ \<Rightarrow>
          (case tier_outcome fl env (fst tier) of
             Inl e \<Rightarrow> Inl e
           | Inr res \<Rightarrow> Inr (set_method (snd tier) res)))"

text \<open>
  Stubbed decoders: one result with text and position; a decoder that reads it only
  in the image rotated by 4 degrees, one that reads nothing, one that reads it in
  every image; a ZBar that reads nothing.
\<close>

definition ean_hit :: "zx_result" where
  "ean_hit = \<lparr> zx_format = ''BarcodeFormat.EAN13'', zx_text = ''4006381333931'',
               zx_position = Some ((10, 10), (110, 10), (110, 60), (10, 60)) \<rparr>"

definition tilted_reader :: "image \<Rightarrow> fmt set option \<Rightarrow> py_error + zx_result list" where
  "tilted_reader img formats =
     (if img = Rotated Source 4 \<and> formats = None then Inr [ean_hit] else Inr [])"

definition silent_reader :: "image \<Rightarrow> fmt set option \<Rightarrow> py_error + zx_result list" where
  "silent_reader img formats = Inr []"

definition fixed_reader :: "image \<Rightarrow> fmt set option \<Rightarrow> py_error + zx_result list" where
  "fixed_reader img formats = Inr [ean_hit]"

definition silent_zbar :: "cv_image \<Rightarrow> py_error + (string \<times> string) list" where
  "silent_zbar c = Inr []"

definition tilted_env :: "(image, cv_image) imaging" where
  "tilted_env = stub_imaging tilted_reader silent_zbar"

definition silent_env :: "(image, cv_image) imaging" where
  "silent_env = stub_imaging silent_reader silent_zbar"

definition fixed_env :: "(image, cv_image) imaging" where
  "fixed_env = stub_imaging fixed_reader silent_zbar"

section \<open>Properties of the normalization engine\<close>

lemma cand_inv_append_new: "cand_inv raw cs \<Longrightarrow> cand_inv raw (append_new v cs)"
  by (auto simp: cand_inv_def append_new_def)

lemma cand_inv_append_new_nonempty:
  "cand_inv raw cs \<Longrightarrow> cand_inv raw (append_new_nonempty v cs)"
  by (auto simp: cand_inv_def append_new_nonempty_def)

lemmas cand_inv_steps = cand_inv_append_new cand_inv_append_new_nonempty

lemma cand_inv_upce: "cand_inv raw cs \<Longrightarrow> cand_inv raw (upce_section t raw cs)"
  by (auto simp: upce_section_def intro: cand_inv_steps split: option.splits)

lemma cand_inv_ean8: "cand_inv raw cs \<Longrightarrow> cand_inv raw (ean8_section t raw cs)"
  by (auto simp: ean8_section_def intro: cand_inv_steps)

lemma cand_inv_databar: "cand_inv raw cs \<Longrightarrow> cand_inv raw (databar_section t v raw cs)"
  by (auto simp: databar_section_def Let_def intro!: cand_inv_steps)

lemma cand_inv_code128: "cand_inv raw cs \<Longrightarrow> cand_inv raw (code128_section t raw cs)"
  by (auto simp: code128_section_def Let_def intro!: cand_inv_steps)

lemma cand_inv_price002: "cand_inv raw cs \<Longrightarrow> cand_inv raw (price002_section raw cs)"
  by (auto simp: price002_section_def intro: cand_inv_steps)

lemma cand_inv_upca: "cand_inv raw cs \<Longrightarrow> cand_inv raw (upca_section t raw cs)"
  by (auto simp: upca_section_def intro: cand_inv_steps)

lemma cand_inv_ean13: "cand_inv raw cs \<Longrightarrow> cand_inv raw (ean13_section t raw cs)"
  by (auto simp: ean13_section_def intro: cand_inv_steps)

lemma cand_inv_normalize:
  assumes "digits_only v \<noteq> []"
  shows "cand_inv (digits_only v) (normalize_candidates v t)"
proof -
  have start: "cand_inv (digits_only v) [digits_only v]"
    by (simp add: cand_inv_def)
  show ?thesis
    using assms start
    by (auto simp: normalize_candidates_def Let_def
        intro!: cand_inv_append_new cand_inv_ean13 cand_inv_upca cand_inv_price002
                cand_inv_code128 cand_inv_databar cand_inv_ean8 cand_inv_upce)
qed

text \<open>
  Claim C4, as the code has it. For the EAN-13 text \<open>2012345678905\<close> the item code is
  the five digits after the leading \<open>2\<close>, that is \<open>01234\<close>, and the variant without
  price keeps the first eight digits \<open>20123456\<close>: the candidates are the raw digits,
  \<open>0020123400000\<close> and \<open>2012345600000\<close>, in that order, and the embedded price is the
  five-digit field \<open>67890\<close>.
\<close>

theorem price_embedded_ean13_candidates:
  "normalize_candidates ''2012345678905'' ''EAN-13''
     = [''2012345678905'', ''002'' @ ''01234'' @ ''00000'', ''20123456'' @ ''00000'']
   \<and> extract_price_from_barcode ''2012345678905'' ''EAN-13'' = Some 67890"
  by code_simp

text \<open>
  Claim C4 as the specification states it fails: the candidate list is not the raw
  digits followed by \<open>002\<close> with \<open>12345\<close> padded to thirteen digits and \<open>20123450\<close>
  with five zeros.
\<close>

theorem price_embedded_ean13_candidates_counterexample:
  "normalize_candidates ''2012345678905'' ''EAN-13''
     \<noteq> [''2012345678905'', ljust (''002'' @ ''12345'') 13 (CHR ''0''), ''20123450'' @ ''00000'']"
  by code_simp

text \<open>
  Claim C5. For every decoded text that contains a digit and every symbology, the
  candidate list is not empty, its first element is the digit-only projection of the
  text, and no string occurs in it twice.
\<close>

theorem normalize_candidates_first_and_distinct:
  assumes "\<exists>c \<in> set raw_text. isdigit c"
  shows "normalize_candidates raw_text symbology \<noteq> []
       \<and> hd (normalize_candidates raw_text symbology) = digits_only raw_text
       \<and> distinct (normalize_candidates raw_text symbology)"
proof -
  from assms have "digits_only raw_text \<noteq> []"
    by (auto simp: digits_only_def filter_empty_conv)
  then have "cand_inv (digits_only raw_text) (normalize_candidates raw_text symbology)"
    by (rule cand_inv_normalize)
  then show ?thesis by (simp add: cand_inv_def)
qed

theorem normalize_candidates_first_and_distinct_witness:
  "(\<exists>c \<in> set ''UPC 0-12345-6 5''. isdigit c)
   \<and> normalize_candidates ''UPC 0-12345-6 5'' ''UPC-E'' \<noteq> []
   \<and> hd (normalize_candidates ''UPC 0-12345-6 5'' ''UPC-E'') = ''01234565''
   \<and> distinct (normalize_candidates ''UPC 0-12345-6 5'' ''UPC-E'')"
proof -
  have h: "\<exists>c \<in> set ''UPC 0-12345-6 5''. isdigit c"
    by (simp add: isdigit_def)
  have d: "digits_only ''UPC 0-12345-6 5'' = ''01234565''"
    by code_simp
  show ?thesis
    using h normalize_candidates_first_and_distinct [OF h, of "''UPC-E''"] d by simp
qed

text \<open>
  Claim C6. The UPC-E text \<open>01234565\<close> expands, by the rule for a last digit from 5
  to 9, to the twelve-digit UPC-A \<open>012345000065\<close>, whose check digit is valid;
  removing that check digit and padding on the left gives the second candidate, a
  thirteen-digit string different from the raw first candidate.
\<close>

theorem upce_expansion_candidates:
  "expand_upce_to_upca ''01234565'' = Some ''012345000065''
   \<and> length ''012345000065'' = 12
   \<and> is_valid_check_digit ''012345000065''
   \<and> remove_check_digit_and_pad ''012345000065'' = ''0001234500006''
   \<and> normalize_candidates ''01234565'' ''UPC-E'' = [''01234565'', ''0001234500006'']
   \<and> length (normalize_candidates ''01234565'' ''UPC-E'' ! 1) = 13
   \<and> list_all isdigit (normalize_candidates ''01234565'' ''UPC-E'' ! 1)
   \<and> normalize_candidates ''01234565'' ''UPC-E'' ! 1 \<noteq> normalize_candidates ''01234565'' ''UPC-E'' ! 0"
  by code_simp

section \<open>Properties of reconciliation\<close>

lemma is_valid_upcean_upce: "is_valid_upcean ''UPC-E'' v"
  by (simp add: is_valid_upcean_def)

lemma dedupe_loop_first_of_type:
  assumes "t \<in> {''UPC-A'', ''EAN-13'', ''UPC-E'', ''EAN-8''}"
    and "\<forall>k \<in> seen. fst k \<in> {''UPC-A'', ''EAN-13'', ''UPC-E'', ''EAN-8''} \<longrightarrow> fst k \<in> st"
  shows "filter (\<lambda>b. barcode_type b = t) (dedupe_loop bs seen st u) =
         filter (\<lambda>b. barcode_type b = t) u @
           (if t \<in> st then []
            else take 1 (filter (\<lambda>b. barcode_type b = t \<and> is_valid_upcean t (barcode_value b)) bs))"
  using assms(2)
proof (induction bs arbitrary: seen st u)
  case Nil
  then show ?case by simp
next
  case (Cons b bs)
  let ?four = "{''UPC-A'', ''EAN-13'', ''UPC-E'', ''EAN-8''}"
  let ?three = "{''EAN-13'', ''EAN-8'', ''UPC-A''}"
  let ?P = "\<lambda>b. barcode_type b = t \<and> is_valid_upcean t (barcode_value b)"
  let ?T = "\<lambda>b. barcode_type b = t"
  let ?rhs = "\<lambda>st bs. filter ?T u @ (if t \<in> st then [] else take 1 (filter ?P bs))"
  consider (dup) "bkey b \<in> seen"
    | (bad) "bkey b \<notin> seen" "barcode_type b \<in> ?three"
            "\<not> is_valid_upcean (barcode_type b) (barcode_value b)"
    | (again) "bkey b \<notin> seen" "\<not> (barcode_type b \<in> ?three
            \<and> \<not> is_valid_upcean (barcode_type b) (barcode_value b))"
            "barcode_type b \<in> ?four" "barcode_type b \<in> st"
    | (first) "bkey b \<notin> seen" "\<not> (barcode_type b \<in> ?three
            \<and> \<not> is_valid_upcean (barcode_type b) (barcode_value b))"
            "barcode_type b \<in> ?four" "barcode_type b \<notin> st"
    | (other) "bkey b \<notin> seen" "\<not> (barcode_type b \<in> ?three
            \<and> \<not> is_valid_upcean (barcode_type b) (barcode_value b))"
            "barcode_type b \<notin> ?four"
    by blast
  then show ?case
  proof cases
    case dup
    then have eq: "dedupe_loop (b # bs) seen st u = dedupe_loop bs seen st u"
      by simp
    have "barcode_type b = t \<Longrightarrow> t \<in> st"
      using dup Cons.prems assms(1) by force
    then have "?rhs st (b # bs) = ?rhs st bs" by auto
    then show ?thesis using eq Cons.IH [OF Cons.prems] by simp
  next
    case bad
    then have eq: "dedupe_loop (b # bs) seen st u = dedupe_loop bs seen st u"
      by simp
    have "\<not> ?P b" using bad by auto
    then have "?rhs st (b # bs) = ?rhs st bs" by auto
    then show ?thesis using eq Cons.IH [OF Cons.prems] by simp
  next
    case again
    then have eq: "dedupe_loop (b # bs) seen st u = dedupe_loop bs seen st u"
      by (auto simp add: Let_def simp del: insert_iff)
    have "barcode_type b = t \<Longrightarrow> t \<in> st" using again by simp
    then have "?rhs st (b # bs) = ?rhs st bs" by auto
    then show ?thesis using eq Cons.IH [OF Cons.prems] by simp
  next
    case first
    then have eq: "dedupe_loop (b # bs) seen st u =
        dedupe_loop bs (insert (bkey b) seen) (insert (barcode_type b) st) (u @ [b])"
      by (auto simp add: Let_def simp del: insert_iff)
    have inv: "\<forall>k \<in> insert (bkey b) seen. fst k \<in> ?four \<longrightarrow> fst k \<in> insert (barcode_type b) st"
      using Cons.prems by auto
    have valid: "is_valid_upcean (barcode_type b) (barcode_value b)"
      using first(2,3) by (auto simp: is_valid_upcean_def)
    show ?thesis
    proof (cases "barcode_type b = t")
      case True
      then show ?thesis
        using eq Cons.IH [OF inv, of "u @ [b]"] first(4) valid by simp
    next
      case False
      then show ?thesis
        using eq Cons.IH [OF inv, of "u @ [b]"] by auto
    qed
  next
    case other
    then have eq: "dedupe_loop (b # bs) seen st u =
        dedupe_loop bs (insert (bkey b) seen) st (u @ [b])"
      by (auto simp add: Let_def simp del: insert_iff)
    have inv: "\<forall>k \<in> insert (bkey b) seen. fst k \<in> ?four \<longrightarrow> fst k \<in> st"
      using Cons.prems other(3) by auto
    have "barcode_type b \<noteq> t" using other(3) assms(1) by auto
    then show ?thesis
      using eq Cons.IH [OF inv, of "u @ [b]"] by simp
  qed
qed


lemma dedupe_loop_subseq:
  "\<exists>ys. dedupe_loop bs seen st u = u @ ys \<and> subseq ys bs"
proof (induction bs arbitrary: seen st u)
  case Nil
  then show ?case by simp
next
  case (Cons b bs)
  have skip: "\<exists>ys. dedupe_loop bs s1 s2 u = u @ ys \<and> subseq ys (b # bs)" for s1 s2
    using Cons.IH [of s1 s2 u] by (auto intro: subseq_Cons')
  have keep: "\<exists>ys. dedupe_loop bs s1 s2 (u @ [b]) = u @ ys \<and> subseq ys (b # bs)" for s1 s2
  proof -
    obtain ys where "dedupe_loop bs s1 s2 (u @ [b]) = (u @ [b]) @ ys" "subseq ys bs"
      using Cons.IH [of s1 s2 "u @ [b]"] by blast
    then have "dedupe_loop bs s1 s2 (u @ [b]) = u @ (b # ys)" "subseq (b # ys) (b # bs)"
      by simp_all
    then show ?thesis by blast
  qed
  show ?case
    unfolding dedupe_loop.simps Let_def
    using skip keep by (simp only: split: if_splits) presburger
qed

lemma dedupe_loop_distinct:
  "bkey ` set u \<subseteq> seen \<Longrightarrow> distinct (map bkey u)
   \<Longrightarrow> distinct (map bkey (dedupe_loop bs seen st u))"
proof (induction bs arbitrary: seen st u)
  case Nil
  then show ?case by simp
next
  case (Cons b bs)
  have keep: "distinct (map bkey (dedupe_loop bs (insert (bkey b) seen) s2 (u @ [b])))"
    if "bkey b \<notin> seen" for s2
  proof (rule Cons.IH)
    show "bkey ` set (u @ [b]) \<subseteq> insert (bkey b) seen"
      using Cons.prems(1) by auto
    show "distinct (map bkey (u @ [b]))"
      using Cons.prems that by auto
  qed
  have skip: "distinct (map bkey (dedupe_loop bs seen st u))"
    using Cons.IH [OF Cons.prems] .
  show ?case
    unfolding dedupe_loop.simps Let_def
    using skip keep by (simp only: split: if_splits) presburger
qed

lemma dedupe_loop_gate:
  "(\<forall>b \<in> set u. barcode_type b \<in> {''EAN-13'', ''EAN-8'', ''UPC-A''}
       \<longrightarrow> is_valid_upcean (barcode_type b) (barcode_value b))
   \<Longrightarrow> (\<forall>b \<in> set (dedupe_loop bs seen st u). barcode_type b \<in> {''EAN-13'', ''EAN-8'', ''UPC-A''}
       \<longrightarrow> is_valid_upcean (barcode_type b) (barcode_value b))"
proof (induction bs arbitrary: seen st u)
  case Nil
  then show ?case by simp
next
  case (Cons b bs)
  let ?G = "\<lambda>b. barcode_type b \<in> {''EAN-13'', ''EAN-8'', ''UPC-A''}
       \<longrightarrow> is_valid_upcean (barcode_type b) (barcode_value b)"
  have keep: "\<forall>x \<in> set (dedupe_loop bs s1 s2 (u @ [b])). ?G x" if "?G b" for s1 s2
    by (rule Cons.IH) (use Cons.prems that in auto)
  have skip: "\<forall>x \<in> set (dedupe_loop bs seen st u). ?G x"
    by (rule Cons.IH) (use Cons.prems in auto)
  show ?case
    unfolding dedupe_loop.simps Let_def
    using skip keep by (simp only: split: if_splits) presburger
qed

text \<open>
  Claim C2. The output of \<open>_dedupe_and_filter\<close> is a subsequence of its input; no
  (symbology, raw text) pair occurs in it twice; every EAN-13, EAN-8 and UPC-A entry of
  it has a valid checksum, while UPC-E passes the validity test whatever its text; and
  for each of UPC-A, UPC-E, EAN-13 and EAN-8 the entries of that symbology in the
  output are exactly the first entry of the input of that symbology that passes the
  checksum gate, so at most one.
\<close>

theorem dedupe_and_filter_reconciles:
  "subseq (dedupe_and_filter bs) bs
   \<and> distinct (map (\<lambda>b. (barcode_type b, barcode_value b)) (dedupe_and_filter bs))
   \<and> (\<forall>b \<in> set (dedupe_and_filter bs).
        barcode_type b \<in> {''EAN-13'', ''EAN-8'', ''UPC-A''}
        \<longrightarrow> is_valid_upcean (barcode_type b) (barcode_value b))
   \<and> (\<forall>v. is_valid_upcean ''UPC-E'' v)
   \<and> (\<forall>t \<in> {''UPC-A'', ''UPC-E'', ''EAN-13'', ''EAN-8''}.
        filter (\<lambda>b. barcode_type b = t) (dedupe_and_filter bs) =
          take 1 (filter (\<lambda>b. barcode_type b = t \<and> is_valid_upcean t (barcode_value b)) bs)
        \<and> length (filter (\<lambda>b. barcode_type b = t) (dedupe_and_filter bs)) \<le> 1)"
proof -
  have sub: "subseq (dedupe_and_filter bs) bs"
    using dedupe_loop_subseq [of bs "{}" "{}" "[]"] by (auto simp: dedupe_and_filter_def)
  have dis: "distinct (map bkey (dedupe_and_filter bs))"
    unfolding dedupe_and_filter_def by (rule dedupe_loop_distinct) simp_all
  have gate: "\<forall>b \<in> set (dedupe_and_filter bs).
        barcode_type b \<in> {''EAN-13'', ''EAN-8'', ''UPC-A''}
        \<longrightarrow> is_valid_upcean (barcode_type b) (barcode_value b)"
    unfolding dedupe_and_filter_def by (rule dedupe_loop_gate) simp
  have first: "filter (\<lambda>b. barcode_type b = t) (dedupe_and_filter bs) =
          take 1 (filter (\<lambda>b. barcode_type b = t \<and> is_valid_upcean t (barcode_value b)) bs)"
    if "t \<in> {''UPC-A'', ''UPC-E'', ''EAN-13'', ''EAN-8''}" for t
  proof -
    have t: "t \<in> {''UPC-A'', ''EAN-13'', ''UPC-E'', ''EAN-8''}" using that by blast
    show ?thesis
      unfolding dedupe_and_filter_def
      using dedupe_loop_first_of_type [OF t, of "{}" "{}" bs "[]"] by simp
  qed
  have one: "length (filter (\<lambda>b. barcode_type b = t) (dedupe_and_filter bs)) \<le> 1"
    if "t \<in> {''UPC-A'', ''UPC-E'', ''EAN-13'', ''EAN-8''}" for t
    unfolding first [OF that] by simp
  show ?thesis
    using sub dis gate first one is_valid_upcean_upce by blast
qed

theorem dedupe_and_filter_reconciles_witness:
  "dedupe_and_filter example_reads =
     [mk_barcode ''EAN-13'' ''4006381333931'' [], mk_barcode ''UPC-E'' ''99'' [],
      mk_barcode ''Code 128'' ''ABC'' []]
   \<and> ''EAN-13'' \<in> {''UPC-A'', ''UPC-E'', ''EAN-13'', ''EAN-8''}
   \<and> mk_barcode ''EAN-13'' ''4006381333931'' [] \<in> set (dedupe_and_filter example_reads)
   \<and> is_valid_upcean ''EAN-13'' ''4006381333931''
   \<and> length (filter (\<lambda>b. barcode_type b = ''EAN-13'') (dedupe_and_filter example_reads)) \<le> 1"
proof -
  have run: "dedupe_and_filter example_reads =
     [mk_barcode ''EAN-13'' ''4006381333931'' [], mk_barcode ''UPC-E'' ''99'' [],
      mk_barcode ''Code 128'' ''ABC'' []]"
    by code_simp
  have mem: "mk_barcode ''EAN-13'' ''4006381333931'' [] \<in> set (dedupe_and_filter example_reads)"
    unfolding run by simp
  have ty: "barcode_type (mk_barcode ''EAN-13'' ''4006381333931'' []) \<in> {''EAN-13'', ''EAN-8'', ''UPC-A''}"
    by (simp add: mk_barcode_def)
  have four: "''EAN-13'' \<in> {''UPC-A'', ''UPC-E'', ''EAN-13'', ''EAN-8''}"
    by simp
  from dedupe_and_filter_reconciles [of example_reads] mem ty four
  have "is_valid_upcean (barcode_type (mk_barcode ''EAN-13'' ''4006381333931'' []))
          (barcode_value (mk_barcode ''EAN-13'' ''4006381333931'' []))"
    and "length (filter (\<lambda>b. barcode_type b = ''EAN-13'') (dedupe_and_filter example_reads)) \<le> 1"
    by blast+
  then show ?thesis
    using run mem four by (simp add: mk_barcode_def)
qed

lemma code128_not_databar: "\<not> str_contains ''DataBar'' ''Code 128''"
  by code_simp

lemma code128_not_upcean: "''Code 128'' \<notin> upcean_types"
  by (simp add: upcean_types_def)

lemma set_prefer_code128: "set (prefer_code128 ds) \<subseteq> set ds"
  by (auto simp: prefer_code128_def Let_def)

lemma set_dedupe_and_filter: "set (dedupe_and_filter bs) \<subseteq> set bs"
proof -
  obtain ys where "dedupe_loop bs {} {} [] = [] @ ys" "subseq ys bs"
    using dedupe_loop_subseq [of bs "{}" "{}" "[]"] by blast
  then have "subseq (dedupe_and_filter bs) bs"
    by (simp add: dedupe_and_filter_def)
  then show ?thesis
    by (auto dest: list_emb_set)
qed

lemma row_for_type: "row_barcode_type (row_for env opts b) = barcode_type b"
  by (simp add: row_for_def Let_def)

lemma prefer_code128_filter:
  assumes "list_ex is_code128 ds"
  shows "prefer_code128 ds = filter (\<lambda>b. \<not> is_databar b \<and> barcode_type b \<notin> upcean_types) ds"
proof -
  let ?U = "\<lambda>b. barcode_type b \<in> upcean_types"
  have two: "filter (\<lambda>b. \<not> is_databar b \<and> \<not> ?U b) ds
      = filter (\<lambda>b. \<not> ?U b) (filter (\<lambda>b. \<not> is_databar b) ds)"
    by (simp add: conj_commute)
  have nodb: "filter (\<lambda>b. \<not> is_databar b) ds = ds" if "\<not> list_ex is_databar ds"
    using that by (simp add: list_ex_iff filter_id_conv)
  have noup: "filter (\<lambda>b. \<not> ?U b) xs = xs" if "\<not> list_ex ?U ds" "set xs \<subseteq> set ds" for xs
    using that by (auto simp: list_ex_iff filter_id_conv)
  have unfold: "prefer_code128 ds =
      (if list_ex ?U ds
       then filter (\<lambda>b. \<not> ?U b) (if list_ex is_databar ds then filter (\<lambda>b. \<not> is_databar b) ds else ds)
       else (if list_ex is_databar ds then filter (\<lambda>b. \<not> is_databar b) ds else ds))"
    unfolding prefer_code128_def Let_def using assms by simp
  show ?thesis
  proof (cases "list_ex is_databar ds")
    case db: True
    show ?thesis
    proof (cases "list_ex ?U ds")
      case True
      then show ?thesis unfolding unfold two using db by simp
    next
      case False
      then show ?thesis
        unfolding unfold two using db noup [of "filter (\<lambda>b. \<not> is_databar b) ds"] by simp
    qed
  next
    case db: False
    show ?thesis
    proof (cases "list_ex ?U ds")
      case True
      then show ?thesis unfolding unfold two using db nodb by simp
    next
      case False
      then show ?thesis
        unfolding unfold two using db nodb noup [of ds] by simp
    qed
  qed
qed

text \<open>
  Claim C7. When the deduplicated detections contain a Code 128 entry, the preference
  step keeps exactly the entries that are neither DataBar-family nor UPC-A, UPC-E,
  EAN-13 or EAN-8: none of those remains, and every entry of type Code 128 survives.
\<close>

theorem code128_preferred:
  assumes "\<exists>b \<in> set ds. is_code128 b"
  shows "prefer_code128 ds = filter (\<lambda>b. \<not> is_databar b \<and> barcode_type b \<notin> upcean_types) ds
       \<and> (\<forall>b \<in> set (prefer_code128 ds). \<not> is_databar b \<and> barcode_type b \<notin> upcean_types)
       \<and> (\<forall>b \<in> set ds. barcode_type b = ''Code 128'' \<longrightarrow> b \<in> set (prefer_code128 ds))"
proof -
  have c: "list_ex is_code128 ds"
    using assms by (simp add: list_ex_iff)
  note eq = prefer_code128_filter [OF c]
  have keep: "b \<in> set (prefer_code128 ds)" if "b \<in> set ds" "barcode_type b = ''Code 128''" for b
    unfolding eq using that code128_not_databar code128_not_upcean
    by (simp add: is_databar_def)
  have gone: "\<not> is_databar b \<and> barcode_type b \<notin> upcean_types" if "b \<in> set (prefer_code128 ds)" for b
    using that unfolding eq by simp
  show ?thesis
    using eq keep gone by blast
qed

theorem code128_preferred_witness:
  "(\<exists>b \<in> set (dedupe_and_filter scenario_reads). is_code128 b)
   \<and> dedupe_and_filter scenario_reads = scenario_reads
   \<and> prefer_code128 (dedupe_and_filter scenario_reads)
       = [mk_barcode ''Code 128'' ''4006381333931XYZ'' (rect 0 200 100 250)]
   \<and> map row_barcode_type
        (process_image_to_rows silent_collaborators default_options scenario_reads)
       = [''Code 128'']"
proof -
  have d: "dedupe_and_filter scenario_reads = scenario_reads"
    by code_simp
  have h: "\<exists>b \<in> set (dedupe_and_filter scenario_reads). is_code128 b"
    unfolding d by code_simp
  have f: "filter (\<lambda>b. \<not> is_databar b \<and> barcode_type b \<notin> upcean_types) scenario_reads
      = [mk_barcode ''Code 128'' ''4006381333931XYZ'' (rect 0 200 100 250)]"
    by code_simp
  have r: "map row_barcode_type
        (process_image_to_rows silent_collaborators default_options scenario_reads)
       = [''Code 128'']"
    by code_simp
  show ?thesis
    using h code128_preferred [OF h] d f r by simp
qed

lemma ocr_recover_types:
  assumes "b \<in> set (ocr_recover env opts bs)"
  shows "b \<in> set bs \<or> barcode_type b \<in> {''EAN-13'', ''UPC-A'', ''EAN-8''}"
proof -
  define u where "u = py_or (ocr_upcean_digit_band env (map quad (filter is_databar bs)))
                            (ocr_upcean_numeric env (map quad (filter is_databar bs)))"
  define t where "t = (\<lambda>v::string. if length v = 13 then ''EAN-13''
                                    else if length v = 12 then ''UPC-A'' else ''EAN-8'')"
  have t: "t v \<in> {''EAN-13'', ''UPC-A'', ''EAN-8''}" for v
    by (simp add: t_def)
  have "ocr_recover env opts bs = bs
      \<or> (\<exists>v. ocr_recover env opts bs =
            [\<lparr> barcode_type = t v, barcode_value = v, quad = [], detection_method = None \<rparr>])"
    unfolding ocr_recover_def Let_def u_def [symmetric] t_def
    by (cases u) simp_all
  then show ?thesis
  proof
    assume "ocr_recover env opts bs = bs"
    then show ?thesis using assms by simp
  next
    assume "\<exists>v. ocr_recover env opts bs =
            [\<lparr> barcode_type = t v, barcode_value = v, quad = [], detection_method = None \<rparr>]"
    then obtain v where "ocr_recover env opts bs =
            [\<lparr> barcode_type = t v, barcode_value = v, quad = [], detection_method = None \<rparr>]" ..
    then have "barcode_type b = t v" using assms by simp
    then show ?thesis using t [of v] by simp
  qed
qed

lemma surviving_types:
  assumes "b \<in> set (surviving_barcodes env opts bs)"
  shows "barcode_type b \<notin> {''Data Matrix'', ''QR Code'', ''QRCode''}"
proof -
  from assms have "b \<in> set (ocr_recover env opts (exclude_2d bs))"
    unfolding surviving_barcodes_def
    using set_prefer_code128 set_dedupe_and_filter by blast
  then have "b \<in> set (exclude_2d bs) \<or> barcode_type b \<in> {''EAN-13'', ''UPC-A'', ''EAN-8''}"
    by (rule ocr_recover_types)
  then show ?thesis
  proof
    assume "b \<in> set (exclude_2d bs)"
    then show ?thesis by (simp add: exclude_2d_def)
  next
    assume "barcode_type b \<in> {''EAN-13'', ''UPC-A'', ''EAN-8''}"
    then show ?thesis by auto
  qed
qed

text \<open>
  Claim C10. Whatever the detections, the collaborators and the options, no row of
  \<open>process_image_to_rows\<close> has the type QR Code (in either spelling) or Data Matrix.
\<close>

theorem rows_exclude_qr_and_data_matrix:
  "\<forall>r \<in> set (process_image_to_rows env opts barcodes).
     row_barcode_type r \<notin> {''Data Matrix'', ''QR Code'', ''QRCode''}"
proof
  fix r assume "r \<in> set (process_image_to_rows env opts barcodes)"
  then obtain b where b: "b \<in> set (surviving_barcodes env opts barcodes)" "r = row_for env opts b"
    by (auto simp: process_image_to_rows_def)
  show "row_barcode_type r \<notin> {''Data Matrix'', ''QR Code'', ''QRCode''}"
    using surviving_types [OF b(1)] unfolding b(2) row_for_type .
qed

theorem rows_exclude_qr_and_data_matrix_witness:
  "map row_barcode_type
     (process_image_to_rows silent_collaborators default_options two_d_reads) = [''EAN-13'']
   \<and> hd (process_image_to_rows silent_collaborators default_options two_d_reads)
       \<in> set (process_image_to_rows silent_collaborators default_options two_d_reads)
   \<and> row_barcode_type
        (hd (process_image_to_rows silent_collaborators default_options two_d_reads))
       \<notin> {''Data Matrix'', ''QR Code'', ''QRCode''}"
proof -
  have r: "map row_barcode_type
     (process_image_to_rows silent_collaborators default_options two_d_reads) = [''EAN-13'']"
    by code_simp
  then have ne: "process_image_to_rows silent_collaborators default_options two_d_reads \<noteq> []"
    by auto
  then have m: "hd (process_image_to_rows silent_collaborators default_options two_d_reads)
       \<in> set (process_image_to_rows silent_collaborators default_options two_d_reads)"
    by simp
  show ?thesis
    using r m rows_exclude_qr_and_data_matrix [of silent_collaborators default_options two_d_reads]
    by blast
qed

section \<open>Properties of the stacked-duplicate pass\<close>

lemma overlap_ratio_1d_sym: "overlap_ratio_1d fl a1 a2 b1 b2 = overlap_ratio_1d fl b1 b2 a1 a2"
  by (simp add: overlap_ratio_1d_def max.commute min.commute)

lemma stacked_sym: "stacked fl a b = stacked fl b a"
  by (cases a; cases b) (simp add: stacked_def overlap_ratio_1d_sym)

lemma stacked_inner_char:
  assumes "\<And>j bj. (j, Some bj) \<in> set rest \<Longrightarrow> box_top box_i \<le> box_top bj"
  shows "stacked_inner fl i box_i rest D =
         D \<union> {j. \<exists>bj. (j, Some bj) \<in> set rest \<and> stacked fl box_i bj}"
  using assms
proof (induction rest arbitrary: D)
  case Nil
  then show ?case by simp
next
  case (Cons x rest)
  obtain j bo where x: "x = (j, bo)" by (cases x)
  have IH: "stacked_inner fl i box_i rest D' =
         D' \<union> {j. \<exists>bj. (j, Some bj) \<in> set rest \<and> stacked fl box_i bj}" for D'
  proof (rule Cons.IH)
    fix j' bj' assume "(j', Some bj') \<in> set rest"
    then show "box_top box_i \<le> box_top bj'"
      using Cons.prems [of j' bj'] by simp
  qed
  show ?case
  proof (cases bo)
    case None
    then show ?thesis using x IH
      by (auto simp del: split_paired_Ex split_paired_All)
  next
    case (Some bj)
    have top: "box_top box_i \<le> box_top bj"
      by (rule Cons.prems [of j bj]) (simp add: x Some)
    show ?thesis using x Some IH top
      by (auto simp del: split_paired_Ex split_paired_All)
  qed
qed

lemma stacked_outer_mono: "D \<subseteq> stacked_outer fl R D"
proof (induction fl R D rule: stacked_outer.induct)
  case (1 fl dropped)
  then show ?case by simp
next
  case (2 fl i rest dropped)
  then show ?case by simp
next
  case (3 fl i box_i rest dropped)
  have "dropped \<subseteq> stacked_inner fl i box_i rest dropped"
    by (induction fl i box_i rest dropped rule: stacked_inner.induct) (auto split: if_splits)
  then show ?case using 3 by (auto split: if_splits)
qed

lemma boxed_Cons_None [simp]: "boxed ((i, None) # R) = boxed R"
  by (auto simp: boxed_def simp del: split_paired_Ex)

lemma boxed_Cons_Some [simp]: "boxed ((i, Some b) # R) = insert i (boxed R)"
  by (auto simp: boxed_def simp del: split_paired_Ex)

lemma boxed_fst: "boxed R \<subseteq> fst ` set R"
  by (force simp: boxed_def)

lemma boxed_tl: "boxed (tl R) \<subseteq> boxed R"
  by (cases R) (auto simp: boxed_def simp del: split_paired_Ex)

lemma sorted_head_top:
  assumes "sorted (map order_key ((i, Some bi) # rest))" "(j, Some bj) \<in> set rest"
  shows "box_top bi \<le> box_top bj"
proof -
  have "order_key (i, Some bi) \<le> order_key (j, Some bj)"
    using assms by force
  then show ?thesis by (simp add: order_key_def)
qed

lemma stacked_inner_sorted:
  assumes "sorted (map order_key ((i, Some bi) # rest))"
  shows "stacked_inner fl i bi rest D =
         D \<union> {j. \<exists>bj. (j, Some bj) \<in> set rest \<and> stacked fl bi bj}"
  by (rule stacked_inner_char) (rule sorted_head_top [OF assms])

lemma stacked_inner_bound:
  assumes "sorted (map order_key ((i, Some bi) # rest))"
  shows "stacked_inner fl i bi rest D \<subseteq> D \<union> boxed rest"
  unfolding stacked_inner_sorted [OF assms] by (auto simp: boxed_def simp del: split_paired_Ex)

lemma stacked_outer_bound:
  "sorted (map order_key R) \<Longrightarrow> stacked_outer fl R D \<subseteq> D \<union> boxed (tl R)"
proof (induction fl R D rule: stacked_outer.induct)
  case (1 fl dropped)
  then show ?case by simp
next
  case (2 fl i rest dropped)
  then have "stacked_outer fl rest dropped \<subseteq> dropped \<union> boxed (tl rest)" by simp
  then show ?case using boxed_tl [of rest] by auto
next
  case (3 fl i box_i rest dropped)
  have srest: "sorted (map order_key rest)" using "3.prems" by simp
  show ?case
  proof (cases "i \<in> dropped")
    case True
    then have "stacked_outer fl rest dropped \<subseteq> dropped \<union> boxed (tl rest)"
      using "3.IH"(1) srest by simp
    then show ?thesis using True boxed_tl [of rest] by auto
  next
    case False
    then have "stacked_outer fl rest (stacked_inner fl i box_i rest dropped)
        \<subseteq> stacked_inner fl i box_i rest dropped \<union> boxed (tl rest)"
      using "3.IH"(2) srest by simp
    then show ?thesis
      using False stacked_inner_bound [OF "3.prems", of fl dropped] boxed_tl [of rest] by auto
  qed
qed

lemma head_survives:
  assumes s: "sorted (map order_key ((i, Some bi) # rest))"
    and d: "distinct (map fst ((i, Some bi) # rest))"
    and nd: "i \<notin> D"
  shows "i \<notin> stacked_outer fl ((i, Some bi) # rest) D"
proof -
  have "stacked_outer fl ((i, Some bi) # rest) D \<subseteq> D \<union> boxed rest"
    using stacked_outer_bound [OF s, of fl D] by simp
  moreover have "i \<notin> boxed rest"
    using d boxed_fst [of rest] by auto
  ultimately show ?thesis using nd by blast
qed

lemma nostack_head:
  assumes s: "sorted (map order_key ((i, Some bi) # rest))"
    and c: "(c, Some bc) \<in> set rest"
    and i: "i \<notin> stacked_outer fl ((i, Some bi) # rest) D"
    and c': "c \<notin> stacked_outer fl ((i, Some bi) # rest) D"
  shows "\<not> stacked fl bi bc"
proof
  assume st: "stacked fl bi bc"
  have nd: "i \<notin> D" using i stacked_outer_mono [of D fl "(i, Some bi) # rest"] by blast
  then have eq: "stacked_outer fl ((i, Some bi) # rest) D
      = stacked_outer fl rest (stacked_inner fl i bi rest D)" by simp
  have "c \<in> stacked_inner fl i bi rest D"
    unfolding stacked_inner_sorted [OF s] using c st by blast
  then have "c \<in> stacked_outer fl ((i, Some bi) # rest) D"
    unfolding eq using stacked_outer_mono by blast
  then show False using c' by simp
qed

lemma stacked_outer_nostack:
  "sorted (map order_key R) \<Longrightarrow> distinct (map fst R)
   \<Longrightarrow> (a, Some ba) \<in> set R \<Longrightarrow> (c, Some bc) \<in> set R \<Longrightarrow> a \<noteq> c
   \<Longrightarrow> a \<notin> stacked_outer fl R D \<Longrightarrow> c \<notin> stacked_outer fl R D
   \<Longrightarrow> \<not> stacked fl ba bc"
proof (induction fl R D rule: stacked_outer.induct)
  case (1 fl dropped)
  then show ?case by simp
next
  case (2 fl i rest dropped)
  then show ?case by simp
next
  case (3 fl i box_i rest dropped)
  have srest: "sorted (map order_key rest)" and drest: "distinct (map fst rest)"
    using "3.prems" by simp_all
  have inrest: "x = i \<Longrightarrow> (x, Some b) \<in> set rest \<Longrightarrow> False" for x b
    using "3.prems"(2) by force
  consider (both) "(a, Some ba) \<in> set rest" "(c, Some bc) \<in> set rest"
    | (ahead) "a = i" "ba = box_i" "(c, Some bc) \<in> set rest"
    | (chead) "c = i" "bc = box_i" "(a, Some ba) \<in> set rest"
    using "3.prems"(3,4,5) by auto
  then show ?case
  proof cases
    case both
    show ?thesis
    proof (cases "i \<in> dropped")
      case True
      then show ?thesis
        using "3.IH"(1) [OF True srest drest both "3.prems"(5)] "3.prems"(6,7) by simp
    next
      case False
      then show ?thesis
        using "3.IH"(2) [OF False srest drest both "3.prems"(5)] "3.prems"(6,7) by simp
    qed
  next
    case ahead
    show ?thesis
      using nostack_head [OF "3.prems"(1) ahead(3)] "3.prems"(6,7) ahead(1,2) by blast
  next
    case chead
    have "\<not> stacked fl box_i ba"
      using nostack_head [OF "3.prems"(1) chead(3)] "3.prems"(6,7) chead(1) by blast
    then show ?thesis using chead(2) stacked_sym by blast
  qed
qed

lemma stacked_outer_dropper:
  "sorted (map order_key R) \<Longrightarrow> distinct (map fst R)
   \<Longrightarrow> j \<in> stacked_outer fl R D \<Longrightarrow> j \<notin> D
   \<Longrightarrow> \<exists>i bi bj. (i, Some bi) \<in> set R \<and> (j, Some bj) \<in> set R \<and> i \<noteq> j
         \<and> i \<notin> stacked_outer fl R D \<and> stacked fl bi bj \<and> box_top bi \<le> box_top bj"
proof (induction fl R D rule: stacked_outer.induct)
  case (1 fl dropped)
  then show ?case by simp
next
  case (2 fl i rest dropped)
  then have "\<exists>k bk bj. (k, Some bk) \<in> set rest \<and> (j, Some bj) \<in> set rest \<and> k \<noteq> j
         \<and> k \<notin> stacked_outer fl rest dropped \<and> stacked fl bk bj \<and> box_top bk \<le> box_top bj"
    by simp
  then show ?case by (auto simp del: split_paired_Ex)
next
  case (3 fl i box_i rest dropped)
  have srest: "sorted (map order_key rest)" and drest: "distinct (map fst rest)"
    using "3.prems" by simp_all
  show ?case
  proof (cases "i \<in> dropped")
    case True
    then have "\<exists>k bk bj. (k, Some bk) \<in> set rest \<and> (j, Some bj) \<in> set rest \<and> k \<noteq> j
         \<and> k \<notin> stacked_outer fl rest dropped \<and> stacked fl bk bj \<and> box_top bk \<le> box_top bj"
      using "3.IH"(1) [OF True srest drest] "3.prems"(3,4) by simp
    then show ?thesis using True by (auto simp del: split_paired_Ex)
  next
    case False
    let ?D1 = "stacked_inner fl i box_i rest dropped"
    have eq: "stacked_outer fl ((i, Some box_i) # rest) dropped = stacked_outer fl rest ?D1"
      using False by simp
    show ?thesis
    proof (cases "j \<in> ?D1")
      case True
      then obtain bj where bj: "(j, Some bj) \<in> set rest" "stacked fl box_i bj"
        unfolding stacked_inner_sorted [OF "3.prems"(1)] using "3.prems"(4) by blast
      have top: "box_top box_i \<le> box_top bj"
        by (rule sorted_head_top [OF "3.prems"(1) bj(1)])
      have ne: "i \<noteq> j" using bj(1) "3.prems"(2) by force
      have surv: "i \<notin> stacked_outer fl ((i, Some box_i) # rest) dropped"
        by (rule head_survives [OF "3.prems"(1,2) False])
      show ?thesis
        by (intro exI [of _ i] exI [of _ box_i] exI [of _ bj])
           (use bj top ne surv in \<open>simp del: stacked_outer.simps\<close>)
    next
      case jn: False
      have "\<exists>k bk bj. (k, Some bk) \<in> set rest \<and> (j, Some bj) \<in> set rest \<and> k \<noteq> j
         \<and> k \<notin> stacked_outer fl rest ?D1 \<and> stacked fl bk bj \<and> box_top bk \<le> box_top bj"
        using "3.IH"(2) [OF False srest drest _ jn] "3.prems"(3) eq by simp
      then show ?thesis unfolding eq by (auto simp del: split_paired_Ex)
    qed
  qed
qed

lemma stacked_dropped_order: "stacked_dropped fl bs = stacked_outer fl (stack_order bs) {}"
  by (simp add: stacked_dropped_def stack_order_def)

lemma in_stack_order:
  "(i, bo) \<in> set (stack_order bs) \<longleftrightarrow> i < length bs \<and> bbox_from_quad (bs ! i) = bo"
  by (auto simp: stack_order_def in_set_enumerate_eq)

lemma sorted_stack_order: "sorted (map order_key (stack_order bs))"
  by (simp add: stack_order_def)

lemma distinct_stack_order: "distinct (map fst (stack_order bs))"
proof -
  let ?xs = "enumerate 0 (map bbox_from_quad bs)"
  have "distinct (map fst ?xs)" by (simp add: map_fst_enumerate)
  then have "distinct ?xs \<and> inj_on fst (set ?xs)" by (simp only: distinct_map)
  then have "distinct (sort_key order_key ?xs) \<and> inj_on fst (set (sort_key order_key ?xs))"
    by simp
  then show ?thesis unfolding stack_order_def by (simp only: distinct_map)
qed

lemma stacked_dropped_boxed:
  assumes "j \<in> stacked_dropped fl bs"
  shows "j < length bs \<and> (\<exists>bj. bbox_from_quad (bs ! j) = Some bj)"
proof -
  have "stacked_dropped fl bs \<subseteq> boxed (stack_order bs)"
    unfolding stacked_dropped_order
    using stacked_outer_bound [OF sorted_stack_order, of fl bs "{}"] boxed_tl by blast
  then obtain bj where "(j, Some bj) \<in> set (stack_order bs)"
    using assms by (auto simp: boxed_def simp del: split_paired_Ex)
  then have "j < length bs \<and> bbox_from_quad (bs ! j) = Some bj"
    by (simp only: in_stack_order)
  then show ?thesis by blast
qed

lemma prefer_topmost_stacked_set:
  "b \<in> set (prefer_topmost_stacked fl bs)
   \<longleftrightarrow> (\<exists>i < length bs. i \<notin> stacked_dropped fl bs \<and> bs ! i = b)"
  by (force simp: prefer_topmost_stacked_def in_set_enumerate_eq image_iff)

lemma prefer_topmost_stacked_subseq: "subseq (prefer_topmost_stacked fl bs) bs"
proof -
  have "subseq (map snd (filter (\<lambda>(idx, b). idx \<notin> stacked_dropped fl bs) (enumerate 0 bs)))
               (map snd (enumerate 0 bs))"
    by (intro subseq_map subseq_filter_left)
  then show ?thesis by (simp add: prefer_topmost_stacked_def map_snd_enumerate)
qed

text \<open>
  The selection of \<open>process_image_to_rows\<close> reads symbology and text, not quads: each
  of its steps commutes with removing the quads.
\<close>

lemma without_quad_simps [simp]:
  "barcode_type (without_quad b) = barcode_type b"
  "barcode_value (without_quad b) = barcode_value b"
  "detection_method (without_quad b) = detection_method b"
  by (simp_all add: without_quad_def)

lemma exclude_2d_without_quad:
  "exclude_2d (map without_quad bs) = map without_quad (exclude_2d bs)"
  by (simp add: exclude_2d_def filter_map o_def)

lemma dedupe_loop_without_quad:
  "dedupe_loop (map without_quad bs) seen seen_types (map without_quad unique)
     = map without_quad (dedupe_loop bs seen seen_types unique)"
proof (induction bs arbitrary: seen seen_types unique)
  case Nil
  then show ?case by simp
next
  case (Cons b bs)
  have u: "map without_quad unique @ [without_quad b] = map without_quad (unique @ [b])"
    by simp
  show ?case
    unfolding list.map dedupe_loop.simps Let_def without_quad_simps u Cons.IH
    by (simp only: if_distrib [of "map without_quad"] cong: if_cong)
qed

lemma dedupe_and_filter_without_quad:
  "dedupe_and_filter (map without_quad bs) = map without_quad (dedupe_and_filter bs)"
  using dedupe_loop_without_quad [of bs "{}" "{}" "[]"] by (simp add: dedupe_and_filter_def)

lemma list_ex_without_quad:
  "list_ex (\<lambda>b. P (barcode_type b)) (map without_quad bs) = list_ex (\<lambda>b. P (barcode_type b)) bs"
  by (simp add: list_ex_iff)

lemma prefer_code128_without_quad:
  "prefer_code128 (map without_quad bs) = map without_quad (prefer_code128 bs)"
proof -
  have c: "list_ex is_code128 (map without_quad bs) = list_ex is_code128 bs"
    by (simp add: list_ex_iff is_code128_def)
  have d: "list_ex is_databar (map without_quad bs) = list_ex is_databar bs"
    by (simp add: list_ex_iff is_databar_def)
  have u: "list_ex (\<lambda>b. barcode_type b \<in> upcean_types) (map without_quad bs)
         = list_ex (\<lambda>b. barcode_type b \<in> upcean_types) bs"
    by (simp add: list_ex_iff)
  have fd: "filter (\<lambda>b. \<not> is_databar b) (map without_quad xs)
         = map without_quad (filter (\<lambda>b. \<not> is_databar b) xs)" for xs
    by (simp add: filter_map o_def is_databar_def)
  have fu: "filter (\<lambda>b. barcode_type b \<notin> upcean_types) (map without_quad xs)
         = map without_quad (filter (\<lambda>b. barcode_type b \<notin> upcean_types) xs)" for xs
    by (simp add: filter_map o_def)
  show ?thesis
    unfolding prefer_code128_def Let_def c d u
    by (simp add: fd fu)
qed

lemma ocr_recovery_tried_without_quad:
  "ocr_recovery_tried opts (map without_quad bs) = ocr_recovery_tried opts bs"
  unfolding ocr_recovery_tried_def Let_def exclude_2d_without_quad
  by (simp add: list_ex_iff is_databar_def)

lemma ocr_recover_not_tried:
  assumes "\<not> ocr_recovery_tried opts bs"
  shows "ocr_recover env opts (exclude_2d bs) = exclude_2d bs"
proof -
  have "\<not> ((\<not> list_ex (\<lambda>b. barcode_type b \<in> upcean_types) (exclude_2d bs)
             \<and> list_ex is_databar (exclude_2d bs)) \<and> ocr opts)"
    using assms unfolding ocr_recovery_tried_def Let_def .
  then show ?thesis
    unfolding ocr_recover_def Let_def by (rule if_not_P)
qed

lemma surviving_not_tried:
  assumes "\<not> ocr_recovery_tried opts bs"
  shows "surviving_barcodes env opts bs = prefer_code128 (dedupe_and_filter (exclude_2d bs))"
  unfolding surviving_barcodes_def ocr_recover_not_tried [OF assms] ..

lemma surviving_without_quad:
  assumes "\<not> ocr_recovery_tried opts bs"
    and "map without_quad bs' = map without_quad bs"
  shows "map without_quad (surviving_barcodes env opts bs')
       = map without_quad (surviving_barcodes env opts bs)"
proof -
  have "ocr_recovery_tried opts bs' = ocr_recovery_tried opts bs"
    using ocr_recovery_tried_without_quad [of opts bs'] ocr_recovery_tried_without_quad [of opts bs]
      assms(2) by simp
  then have t': "\<not> ocr_recovery_tried opts bs'" using assms(1) by simp
  have "map without_quad (prefer_code128 (dedupe_and_filter (exclude_2d bs')))
      = prefer_code128 (dedupe_and_filter (exclude_2d (map without_quad bs')))"
    by (simp only: prefer_code128_without_quad dedupe_and_filter_without_quad
          exclude_2d_without_quad)
  also have "\<dots> = prefer_code128 (dedupe_and_filter (exclude_2d (map without_quad bs)))"
    by (simp only: assms(2))
  also have "\<dots> = map without_quad (prefer_code128 (dedupe_and_filter (exclude_2d bs)))"
    by (simp only: prefer_code128_without_quad dedupe_and_filter_without_quad
          exclude_2d_without_quad)
  finally show ?thesis
    unfolding surviving_not_tried [OF assms(1)] surviving_not_tried [OF t'] .
qed

lemma display_value_for_without_quad:
  "display_value_for env (without_quad b) = display_value_for env b"
  unfolding display_value_for_def without_quad_simps ..

lemma row_key_without_quad:
  "row_key (row_for env opts (without_quad b)) = row_key (row_for env opts b)"
  unfolding row_key_def row_for_def Let_def without_quad_simps display_value_for_without_quad
  by simp

lemma row_for_without_quad:
  assumes "\<not> ocr opts"
  shows "row_for env opts (without_quad b) = row_for env opts b"
  unfolding row_for_def Let_def without_quad_simps display_value_for_without_quad
  using assms by simp

lemma rows_without_quad:
  assumes "map without_quad cs' = map without_quad cs"
  shows "map row_key (map (row_for env opts) cs') = map row_key (map (row_for env opts) cs)"
proof -
  have "map row_key (map (row_for env opts) xs)
      = map (\<lambda>b. row_key (row_for env opts b)) (map without_quad xs)" for xs
    by (induction xs) (simp_all add: row_key_without_quad)
  then show ?thesis by (simp only: assms)
qed

lemma rows_without_quad_no_ocr:
  assumes "map without_quad cs' = map without_quad cs" and "\<not> ocr opts"
  shows "map (row_for env opts) cs' = map (row_for env opts) cs"
proof -
  have "map (row_for env opts) xs = map (row_for env opts) (map without_quad xs)" for xs
    by (induction xs) (simp_all add: row_for_without_quad [OF assms(2)])
  then show ?thesis using assms(1) by metis
qed




text \<open>
  The pass itself does not drop the lower entry of every stacked pair: of three reads
  where the second is stacked under the first and the third under the second only,
  the first and the third are kept.
\<close>

lemma chain_keeps_third:
  "map barcode_value (prefer_topmost_stacked exact_ops chain_reads) = [''A'', ''C'']"
  by code_simp

text \<open>
  The two cases of the specification's test: vertical overlap of 90 percent is not
  stacked and both reads are kept.
\<close>

lemma overlapping_not_stacked:
  "prefer_topmost_stacked exact_ops
     [mk_barcode ''Code 128'' ''AAA'' (rect 0 0 100 50),
      mk_barcode ''Code 128'' ''BBB'' (rect 0 5 100 55)]
   = [mk_barcode ''Code 128'' ''AAA'' (rect 0 0 100 50),
      mk_barcode ''Code 128'' ''BBB'' (rect 0 5 100 55)]"
  by code_simp

section \<open>Properties of the transform cascade and the geometry mapper\<close>

lemma run_tiers_closed_form:
  "run_tiers fl env tiers trace =
     (trace @ map (attempt_of fl env) (take (Suc (stop_index fl env tiers)) tiers),
      result_at fl env (drop (stop_index fl env tiers) tiers))"
proof (induction tiers arbitrary: trace)
  case Nil
  then show ?case by (simp add: stop_index_def result_at_def)
next
  case (Cons tier tiers)
  obtain call label where tier: "tier = (call, label)" by (cases tier)
  show ?case
  proof (cases "tier_outcome fl env call")
    case (Inl e)
    then have stop: "stop_index fl env (tier # tiers) = 0"
      by (simp add: stop_index_def tier)
    show ?thesis
      unfolding stop by (simp add: tier Inl attempt_of_def result_at_def)
  next
    case (Inr res)
    show ?thesis
    proof (cases "res = []")
      case True
      then have stop: "stop_index fl env (tier # tiers) = Suc (stop_index fl env tiers)"
        by (simp add: stop_index_def tier Inr)
      show ?thesis
        unfolding stop using Cons.IH [of "trace @ [Attempt call (Inr res)]"]
        by (simp add: tier Inr True attempt_of_def)
    next
      case False
      then have stop: "stop_index fl env (tier # tiers) = 0"
        by (simp add: stop_index_def tier Inr)
      show ?thesis
        unfolding stop by (simp add: tier Inr False attempt_of_def result_at_def)
    qed
  qed
qed

lemma stop_index_le: "stop_index fl env tiers \<le> length tiers"
  by (simp add: stop_index_def length_takeWhile_le)

lemma before_stop_empty:
  assumes "k < stop_index fl env tiers"
  shows "tier_outcome fl env (fst (tiers ! k)) = Inr []"
proof -
  let ?P = "\<lambda>tier. tier_outcome fl env (fst tier) = Inr []"
  have "takeWhile ?P tiers ! k \<in> set (takeWhile ?P tiers)"
    using assms by (simp add: stop_index_def)
  then have "?P (takeWhile ?P tiers ! k)"
    by (blast dest: set_takeWhileD)
  then show ?thesis
    using assms by (simp add: stop_index_def takeWhile_nth)
qed

lemma at_stop_nonempty:
  assumes "stop_index fl env tiers < length tiers"
  shows "tier_outcome fl env (fst (tiers ! stop_index fl env tiers)) \<noteq> Inr []"
  using assms nth_length_takeWhile [of "\<lambda>tier. tier_outcome fl env (fst tier) = Inr []" tiers]
  by (simp add: stop_index_def)

lemma stop_index_all_empty:
  assumes "\<forall>tier \<in> set tiers. tier_outcome fl env (fst tier) = Inr []"
  shows "stop_index fl env tiers = length tiers"
proof -
  have "takeWhile (\<lambda>tier. tier_outcome fl env (fst tier) = Inr []) tiers = tiers"
    using assms by (simp only: takeWhile_eq_all_conv)
  then show ?thesis unfolding stop_index_def by (rule arg_cong [of _ _ length])
qed

text \<open>
  Claim C1. Let \<open>tiers\<close> be the tiers of a run in their order (the retries of the
  orientation pre-check, when its quick scan finds a vertical barcode, and then the
  tiers of the general cascade for the given effort flag) and \<open>stop\<close> the index of the
  first tier whose decode attempt returns something. The run records the quick scan
  and then exactly the attempts of the tiers up to that index, in order; every tier
  before it returned the empty list; when there is such a tier, the run returns its
  result, with the tier's method label, and no later tier is attempted; otherwise the
  run returns the empty list. The quick scan of the pre-check is not a tier: its
  result only decides whether the two retries are tiers of the run.
\<close>

theorem cascade_stops_at_first_success:
  assumes "base_image fl env img isize max_side = Inr (base, bsize)"
    and "tiers = cascade_tiers fl env img isize base bsize aggressive"
    and "stop = stop_index fl env tiers"
  shows "fst (detect_barcodes fl env img isize max_side aggressive)
           = Quick_scan base # map (attempt_of fl env) (take (Suc stop) tiers)
       \<and> (\<forall>k < stop. tier_outcome fl env (fst (tiers ! k)) = Inr [])
       \<and> (stop < length tiers \<longrightarrow>
            tier_outcome fl env (fst (tiers ! stop)) \<noteq> Inr []
            \<and> length (fst (detect_barcodes fl env img isize max_side aggressive)) = Suc (Suc stop)
            \<and> snd (detect_barcodes fl env img isize max_side aggressive)
                = (case tier_outcome fl env (fst (tiers ! stop)) of
                     Inl e \<Rightarrow> Inl e
                   | Inr res \<Rightarrow> Inr (set_method (snd (tiers ! stop)) res)))
       \<and> (stop = length tiers \<longrightarrow>
            snd (detect_barcodes fl env img isize max_side aggressive) = Inr [])"
proof -
  have run: "detect_barcodes fl env img isize max_side aggressive =
      ([Quick_scan base] @ map (attempt_of fl env) (take (Suc stop) tiers),
       result_at fl env (drop stop tiers))"
    unfolding detect_barcodes_def assms(1) assms(2) assms(3)
    by (simp add: run_tiers_closed_form)
  have before: "\<forall>k < stop. tier_outcome fl env (fst (tiers ! k)) = Inr []"
    unfolding assms(3) by (simp add: before_stop_empty)
  have at: "tier_outcome fl env (fst (tiers ! stop)) \<noteq> Inr []
      \<and> length (fst (detect_barcodes fl env img isize max_side aggressive)) = Suc (Suc stop)
      \<and> snd (detect_barcodes fl env img isize max_side aggressive)
                = (case tier_outcome fl env (fst (tiers ! stop)) of
                     Inl e \<Rightarrow> Inl e
                   | Inr res \<Rightarrow> Inr (set_method (snd (tiers ! stop)) res))"
    if lt: "stop < length tiers"
  proof -
    have ne: "tier_outcome fl env (fst (tiers ! stop)) \<noteq> Inr []"
      using lt at_stop_nonempty [of fl env tiers] unfolding assms(3) by simp
    have d: "drop stop tiers = tiers ! stop # drop (Suc stop) tiers"
      using lt by (simp add: Cons_nth_drop_Suc)
    have len: "length (fst (detect_barcodes fl env img isize max_side aggressive)) = Suc (Suc stop)"
      unfolding run using lt by simp
    have res: "snd (detect_barcodes fl env img isize max_side aggressive)
                = (case tier_outcome fl env (fst (tiers ! stop)) of
                     Inl e \<Rightarrow> Inl e
                   | Inr res \<Rightarrow> Inr (set_method (snd (tiers ! stop)) res))"
      unfolding run d by (simp add: result_at_def)
    show ?thesis using ne len res by simp
  qed
  have exhausted: "snd (detect_barcodes fl env img isize max_side aggressive) = Inr []"
    if "stop = length tiers"
    unfolding run using that by (simp add: result_at_def)
  show ?thesis
    using run before at exhausted by simp
qed

text \<open>
  What holds of an exhausted cascade: when the base image is built and the attempt
  of every tier returns the empty list (none raises), \<open>detect_barcodes\<close> returns the
  empty list.
\<close>

lemma exhausted_tiers_return_empty:
  assumes "base_image fl env img isize max_side = Inr (base, bsize)"
    and "\<forall>tier \<in> set (cascade_tiers fl env img isize base bsize aggressive).
           tier_outcome fl env (fst tier) = Inr []"
  shows "snd (detect_barcodes fl env img isize max_side aggressive) = Inr []"
  unfolding detect_barcodes_def assms(1)
  by (simp add: run_tiers_closed_form stop_index_all_empty [OF assms(2)] result_at_def)

text \<open>
  Claim C8 is not what the code does on a thin image. For an image 1 pixel wide and
  3000 pixels high, no \<open>max_side\<close>, the effort flag set and decoders that read
  nothing, the cascade has 17 tiers; the attempts of the first 16 return the empty
  list; the last one, the Code 128 fallback, first downscales \<open>base\<close> by
  \<open>2400 / 3000\<close> to the size \<open>(int(0.8), int(2400.0))\<close>, that is \<open>(0, 2400)\<close>, which
  \<open>resize\<close> rejects: \<open>detect_barcodes\<close> ends in \<open>ValueError\<close> and does not return the
  empty list.
\<close>

theorem exhausted_cascade_raises_on_thin_image:
  "base_image exact_ops silent_env Source (1, 3000) None = Inr (Source, (1, 3000))
   \<and> length (cascade_tiers exact_ops silent_env Source (1, 3000) Source (1, 3000) True) = 17
   \<and> list_all (\<lambda>tier. tier_outcome exact_ops silent_env (fst tier) = Inr [])
        (butlast (cascade_tiers exact_ops silent_env Source (1, 3000) Source (1, 3000) True))
   \<and> scale_size exact_ops (1, 3000)
        (f_div exact_ops (f_lit exact_ops 2400) (f_of_int exact_ops (max 1 3000))) = (0, 2400)
   \<and> code128_image exact_ops silent_env Source (1, 3000) = Inl ValueError
   \<and> last (cascade_tiers exact_ops silent_env Source (1, 3000) Source (1, 3000) True)
       = (Resize_error ValueError, None)
   \<and> length (fst (detect_barcodes exact_ops silent_env Source (1, 3000) None True)) = 18
   \<and> snd (detect_barcodes exact_ops silent_env Source (1, 3000) None True) = Inl ValueError
   \<and> snd (detect_barcodes exact_ops silent_env Source (1, 3000) None True) \<noteq> Inr []"
proof -
  let ?T = "cascade_tiers exact_ops silent_env Source (1, 3000) Source (1, 3000) True"
  have b: "base_image exact_ops silent_env Source (1, 3000) None = Inr (Source, (1, 3000))"
    by code_simp
  have l: "length ?T = 17"
    by code_simp
  have e: "list_all (\<lambda>tier. tier_outcome exact_ops silent_env (fst tier) = Inr []) (butlast ?T)"
    by code_simp
  have z: "scale_size exact_ops (1, 3000)
        (f_div exact_ops (f_lit exact_ops 2400) (f_of_int exact_ops (max 1 3000))) = (0, 2400)"
    by code_simp
  have c: "code128_image exact_ops silent_env Source (1, 3000) = Inl ValueError"
    by code_simp
  have t: "last ?T = (Resize_error ValueError, None)"
    by code_simp
  have n: "length (fst (detect_barcodes exact_ops silent_env Source (1, 3000) None True)) = 18"
    by code_simp
  have r: "snd (detect_barcodes exact_ops silent_env Source (1, 3000) None True) = Inl ValueError"
    by code_simp
  show ?thesis
    using b l e z c t n r by simp
qed

text \<open>
  The downscale to \<open>max_side\<close> has the same defect: a 1 by 4000 image with
  \<open>max_side = 3200\<close> is resized to \<open>(0, 3200)\<close> before any decode attempt. An ordinary
  image is exhausted without exception.
\<close>

lemma thin_image_max_side_raises:
  "detect_barcodes exact_ops silent_env Source (1, 4000) (Some 3200) False
     = ([], Inl ValueError)"
  by code_simp

lemma ordinary_image_exhausted:
  "length (cascade_tiers exact_ops silent_env Source (1000, 800) Source (1000, 800) True) = 29
   \<and> snd (detect_barcodes exact_ops silent_env Source (1000, 800) None True) = Inr []
   \<and> snd (detect_barcodes exact_ops silent_env Source (1000, 800) None False) = Inr []"
  by code_simp

lemma map_detected_eq:
  "map_detected fl ox oy k results =
     map (\<lambda>r. \<lparr> barcode_type = friendly_format (zx_format r), barcode_value = zx_text r,
                quad = map (\<lambda>(x, y). (ox + f_trunc fl (f_mul fl (f_of_int fl x) k),
                                       oy + f_trunc fl (f_mul fl (f_of_int fl y) k)))
                         (extract_quad (zx_position r)),
                detection_method = None \<rparr>)
         (filter (\<lambda>r. zx_text r \<noteq> []) results)"
  by (induction results) (simp_all add: Let_def)

lemma spec_remap_eq:
  "spec_remap fl (ox, oy) s =
     (\<lambda>(x, y). (ox + f_trunc fl (f_mul fl (f_of_int fl x) (f_div fl (f_lit fl 1) s)),
                oy + f_trunc fl (f_mul fl (f_of_int fl y) (f_div fl (f_lit fl 1) s))))"
  by (auto simp: spec_remap_def fun_eq_iff)

text \<open>
  Claim C9. With a crop origin \<open>(ox, oy)\<close> and a scale \<open>s\<close> that is not zero, the
  detections of \<open>_try_decode_with_map\<close> and \<open>_try_decode_with_map_formats\<close> are the
  decoder's results that have text, each with every raw quad point \<open>(x, y)\<close> replaced
  by \<open>(ox + int(x * (1 / s)), oy + int(y * (1 / s)))\<close>; in arithmetic without
  rounding this is the offset plus the raw point divided by the scale, truncated.
\<close>

theorem quads_remapped_to_original:
  assumes "\<not> f_eq fl s (f_lit fl 0)"
  shows "try_decode_with_map fl env img (ox, oy) s =
           (case read_barcodes env img None of
              Inl e \<Rightarrow> Inl e
            | Inr results \<Rightarrow>
                Inr (map (\<lambda>r. \<lparr> barcode_type = friendly_format (zx_format r),
                                 barcode_value = zx_text r,
                                 quad = map (spec_remap fl (ox, oy) s) (extract_quad (zx_position r)),
                                 detection_method = None \<rparr>)
                         (filter (\<lambda>r. zx_text r \<noteq> []) results)))
       \<and> try_decode_with_map_formats fl env img (ox, oy) s formats =
           (case read_barcodes env img (Some formats) of
              Inl e \<Rightarrow> []
            | Inr results \<Rightarrow>
                map (\<lambda>r. \<lparr> barcode_type = friendly_format (zx_format r),
                            barcode_value = zx_text r,
                            quad = map (spec_remap fl (ox, oy) s) (extract_quad (zx_position r)),
                            detection_method = None \<rparr>)
                    (filter (\<lambda>r. zx_text r \<noteq> []) results))
       \<and> spec_remap exact_ops (ox, oy) q (x, y)
           = (ox + trunc_rat (of_int x / q), oy + trunc_rat (of_int y / q))"
proof -
  have inv: "inverse_scale fl s = f_div fl (f_lit fl 1) s"
    using assms by (simp add: inverse_scale_def)
  have ex: "spec_remap exact_ops (ox, oy) q (x, y)
           = (ox + trunc_rat (of_int x / q), oy + trunc_rat (of_int y / q))"
    by (simp add: spec_remap_def exact_ops_def)
  show ?thesis
    unfolding try_decode_with_map_def try_decode_with_map_formats_def inv map_detected_eq
      spec_remap_eq
    using ex by (simp add: spec_remap_eq split: sum.splits)
qed

theorem cascade_stops_at_first_success_witness:
  "base_image exact_ops tilted_env Source (1000, 800) None = Inr (Source, (1000, 800))
   \<and> stop_index exact_ops tilted_env
        (cascade_tiers exact_ops tilted_env Source (1000, 800) Source (1000, 800) True) = 1
   \<and> length (cascade_tiers exact_ops tilted_env Source (1000, 800) Source (1000, 800) True) = 29
   \<and> fst (detect_barcodes exact_ops tilted_env Source (1000, 800) None True)
       = [Quick_scan Source,
          Attempt (Decode (Rotated Source (- 4))) (Inr []),
          Attempt (Decode (Rotated Source 4))
            (Inr [\<lparr> barcode_type = ''EAN-13'', barcode_value = ''4006381333931'',
                     quad = [(10, 10), (110, 10), (110, 60), (10, 60)],
                     detection_method = None \<rparr>])]
   \<and> length (fst (detect_barcodes exact_ops tilted_env Source (1000, 800) None True)) = 3
   \<and> snd (detect_barcodes exact_ops tilted_env Source (1000, 800) None True)
       = Inr [\<lparr> barcode_type = ''EAN-13'', barcode_value = ''4006381333931'',
                 quad = [(10, 10), (110, 10), (110, 60), (10, 60)],
                 detection_method = None \<rparr>]"
proof -
  let ?T = "cascade_tiers exact_ops tilted_env Source (1000, 800) Source (1000, 800) True"
  have b: "base_image exact_ops tilted_env Source (1000, 800) None = Inr (Source, (1000, 800))"
    by code_simp
  have s: "stop_index exact_ops tilted_env ?T = 1"
    by code_simp
  have l: "length ?T = 29"
    by code_simp
  have t: "fst (detect_barcodes exact_ops tilted_env Source (1000, 800) None True)
       = [Quick_scan Source,
          Attempt (Decode (Rotated Source (- 4))) (Inr []),
          Attempt (Decode (Rotated Source 4))
            (Inr [\<lparr> barcode_type = ''EAN-13'', barcode_value = ''4006381333931'',
                     quad = [(10, 10), (110, 10), (110, 60), (10, 60)],
                     detection_method = None \<rparr>])]"
    by code_simp
  have r: "snd (detect_barcodes exact_ops tilted_env Source (1000, 800) None True)
       = Inr [\<lparr> barcode_type = ''EAN-13'', barcode_value = ''4006381333931'',
                 quad = [(10, 10), (110, 10), (110, 60), (10, 60)],
                 detection_method = None \<rparr>]"
    by code_simp
  have lt: "stop_index exact_ops tilted_env ?T < length ?T"
    unfolding s l by simp
  from cascade_stops_at_first_success [OF b refl refl, of True] lt
  have "length (fst (detect_barcodes exact_ops tilted_env Source (1000, 800) None True))
      = Suc (Suc (stop_index exact_ops tilted_env ?T))"
    by blast
  then have "length (fst (detect_barcodes exact_ops tilted_env Source (1000, 800) None True)) = 3"
    unfolding s by simp
  then show ?thesis
    using b s l t r by simp
qed

theorem quads_remapped_to_original_witness:
  "\<not> f_eq exact_ops 2 (f_lit exact_ops 0)
   \<and> read_barcodes fixed_env Source None = Inr [ean_hit]
   \<and> try_decode_with_map exact_ops fixed_env Source (100, 200) 2
       = Inr [\<lparr> barcode_type = ''EAN-13'', barcode_value = ''4006381333931'',
                 quad = [(105, 205), (155, 205), (155, 230), (105, 230)],
                 detection_method = None \<rparr>]"
proof -
  have z: "\<not> f_eq exact_ops 2 (f_lit exact_ops 0)"
    by (simp add: exact_ops_def)
  have rd: "read_barcodes fixed_env Source None = Inr [ean_hit]"
    by (simp add: fixed_env_def stub_imaging_def fixed_reader_def)
  have q: "map (spec_remap exact_ops (100, 200) 2) (extract_quad (zx_position ean_hit))
      = [(105, 205), (155, 205), (155, 230), (105, 230)]"
    by code_simp
  have f: "friendly_format (zx_format ean_hit) = ''EAN-13''"
    by code_simp
  have tx: "zx_text ean_hit = ''4006381333931''"
    by (simp add: ean_hit_def)
  show ?thesis
    using z rd quads_remapped_to_original [OF z, of fixed_env Source 100 200] q f tx
    by simp
qed

lemma recognized_2d_formats:
  "friendly_format ''BarcodeFormat.QRCode'' = ''QR Code''
   \<and> friendly_format ''BarcodeFormat.DataMatrix'' = ''Data Matrix''"
  by code_simp

end
